theory Spec2Isabelle
  imports Complex_Main
begin

section \<open>Values of the numeric pipeline (registration/core.py)\<close>

text \<open>
  The functions of \<^verbatim>\<open>registration/core.py\<close> compute on numpy arrays of float64.
  A float is modelled by \<open>npfloat\<close>: a real number, or one of the three special values
  that numpy's arithmetic produces instead of raising (a division by zero in numpy
  gives \<open>inf\<close> or \<open>nan\<close> and a warning, never an exception). Finite arithmetic is
  exact: rounding, overflow and underflow are not part of the model, and there is a
  single zero (taken as positive where a sign is needed).
\<close>

datatype npfloat = Fin real | PInf | NInf | NaN

fun np_neg :: "npfloat \<Rightarrow> npfloat" where
  "np_neg (Fin a) = Fin (- a)"
| "np_neg PInf = NInf"
| "np_neg NInf = PInf"
| "np_neg NaN = NaN"

fun np_add :: "npfloat \<Rightarrow> npfloat \<Rightarrow> npfloat" where
  "np_add (Fin a) (Fin b) = Fin (a + b)"
| "np_add NaN _ = NaN"
| "np_add _ NaN = NaN"
| "np_add PInf NInf = NaN"
| "np_add NInf PInf = NaN"
| "np_add PInf _ = PInf"
| "np_add _ PInf = PInf"
| "np_add NInf _ = NInf"
| "np_add _ NInf = NInf"

definition np_sub :: "npfloat \<Rightarrow> npfloat \<Rightarrow> npfloat" where
  "np_sub x y = np_add x (np_neg y)"

text \<open>The sign of a value: \<open>None\<close> for \<open>nan\<close>, otherwise \<open>-1\<close>, \<open>0\<close> or \<open>1\<close>.\<close>

fun np_sign :: "npfloat \<Rightarrow> int option" where
  "np_sign (Fin a) = Some (if a < 0 then - 1 else if a = 0 then 0 else 1)"
| "np_sign PInf = Some 1"
| "np_sign NInf = Some (- 1)"
| "np_sign NaN = None"

definition signed_inf :: "int \<Rightarrow> npfloat" where
  "signed_inf s = (if s < 0 then NInf else if s = 0 then NaN else PInf)"

fun np_mul :: "npfloat \<Rightarrow> npfloat \<Rightarrow> npfloat" where
  "np_mul (Fin a) (Fin b) = Fin (a * b)"
| "np_mul x y =
     (case (np_sign x, np_sign y) of
        (Some s, Some t) \<Rightarrow> signed_inf (s * t)
      | _ \<Rightarrow> NaN)"

fun np_div :: "npfloat \<Rightarrow> npfloat \<Rightarrow> npfloat" where
  "np_div (Fin a) (Fin b) =
     (if b = 0 then (if a = 0 then NaN else if 0 < a then PInf else NInf)
      else Fin (a / b))"
| "np_div (Fin a) PInf = Fin 0"
| "np_div (Fin a) NInf = Fin 0"
| "np_div PInf (Fin b) = (if b < 0 then NInf else PInf)"
| "np_div NInf (Fin b) = (if b < 0 then PInf else NInf)"
| "np_div _ _ = NaN"

fun np_sqrt :: "npfloat \<Rightarrow> npfloat" where
  "np_sqrt (Fin a) = (if a < 0 then NaN else Fin (sqrt a))"
| "np_sqrt PInf = PInf"
| "np_sqrt NInf = NaN"
| "np_sqrt NaN = NaN"

fun np_exp :: "npfloat \<Rightarrow> npfloat" where
  "np_exp (Fin a) = Fin (exp a)"
| "np_exp PInf = PInf"
| "np_exp NInf = Fin 0"
| "np_exp NaN = NaN"

fun np_abs :: "npfloat \<Rightarrow> npfloat" where
  "np_abs (Fin a) = Fin \<bar>a\<bar>"
| "np_abs PInf = PInf"
| "np_abs NInf = PInf"
| "np_abs NaN = NaN"

text \<open>Comparisons: every comparison with \<open>nan\<close> is false.\<close>

fun np_less :: "npfloat \<Rightarrow> npfloat \<Rightarrow> bool" where
  "np_less (Fin a) (Fin b) = (a < b)"
| "np_less NaN _ = False"
| "np_less _ NaN = False"
| "np_less _ NInf = False"
| "np_less PInf _ = False"
| "np_less NInf _ = True"
| "np_less _ PInf = True"

definition np_greater :: "npfloat \<Rightarrow> npfloat \<Rightarrow> bool" where
  "np_greater x y = np_less y x"

text \<open>\<open>ndarray.sum()\<close> of a one-dimensional array; the sum of no element is \<open>0.0\<close>.\<close>

definition np_sum :: "npfloat list \<Rightarrow> npfloat" where
  "np_sum xs = foldl np_add (Fin 0) xs"

text \<open>
  A two-dimensional array of shape \<open>(nrows, ncols)\<close>: its rows, and the number of
  columns (which the rows alone do not give when there is no row). Every row of an
  array has \<open>ncols\<close> elements.
\<close>

datatype 'a array2 = Array2 (ncols: nat) (rows: "'a list list")

definition nrows :: "'a array2 \<Rightarrow> nat" where
  "nrows A = length (rows A)"

definition wf_array2 :: "'a array2 \<Rightarrow> bool" where
  "wf_array2 A = list_all (\<lambda>r. length r = ncols A) (rows A)"

text \<open>
  The exceptions of the model. The first five are raised by Python and numpy;
  \<open>InvalidArgument\<close> and \<open>DegenerateState\<close> are the error kinds of the specification.
\<close>

datatype pyerror =
    NameError | IndexError | ValueError | ZeroDivisionError | LinAlgError
  | InvalidArgument | DegenerateState

text \<open>
  Indexing one axis of length \<open>n\<close> with a Python integer: a negative index counts
  from the end, an index outside \<open>-n .. n-1\<close> raises \<open>IndexError\<close> (\<open>None\<close> here).
\<close>

definition py_index :: "nat \<Rightarrow> int \<Rightarrow> nat option" where
  "py_index n i =
     (if 0 \<le> i \<and> i < int n then Some (nat i)
      else if i < 0 \<and> - int n \<le> i then Some (nat (int n + i))
      else None)"

section \<open>Affinity Builder: \<open>wknn_affinity\<close>\<close>

text \<open>
  Lines 60 to 66: the affinity of one neighbour from its distance. The distance is
  raised to the floor 0.001, the affinity is 1 over the squared distance, raised to
  the floor 0.0001.
\<close>

definition clamp_distance :: "npfloat \<Rightarrow> npfloat" where
  "clamp_distance distance =
     (if np_less distance (Fin (1 / 1000)) then Fin (1 / 1000) else distance)"

definition affinity_element :: "npfloat \<Rightarrow> npfloat" where
  "affinity_element distance0 =
     (let distance = clamp_distance distance0;
          affinityElement = np_div (Fin 1) (np_mul distance distance)
      in if np_less affinityElement (Fin (1 / 10000)) then Fin (1 / 10000)
         else affinityElement)"

text \<open>
  The inner loop (lines 57 to 70) over \<open>enumerate(neighbourIndices[i,:])\<close>, on row
  \<open>i\<close> of the affinity matrix: \<open>distances[i,j]\<close> is read first and raises
  \<open>IndexError\<close> outside the array, then \<open>affinity12[i,idx]\<close> is written, which raises
  \<open>IndexError\<close> when \<open>idx\<close> is no index of the row.
\<close>

fun scatter_row ::
  "npfloat array2 \<Rightarrow> nat \<Rightarrow> (nat \<times> int) list \<Rightarrow> npfloat list \<Rightarrow> pyerror + npfloat list" where
  "scatter_row distances i [] arow = Inr arow"
| "scatter_row distances i ((j, idx) # rest) arow =
     (if i < nrows distances \<and> j < length (rows distances ! i) then
        (case py_index (length arow) idx of
           None \<Rightarrow> Inl IndexError
         | Some c \<Rightarrow>
             scatter_row distances i rest
               (arow[c := affinity_element (rows distances ! i ! j)]))
      else Inl IndexError)"

text \<open>
  The outer loop (line 55) over the source elements. Iteration \<open>i\<close> writes row \<open>i\<close>
  of \<open>affinity12\<close> only, which starts as a row of \<open>numElements2\<close> zeros (line 49), so
  the rows are built one after the other; the first exception ends the loop.
\<close>

fun wknn_rows ::
  "npfloat array2 \<Rightarrow> int array2 \<Rightarrow> nat \<Rightarrow> nat list \<Rightarrow> pyerror + npfloat list list" where
  "wknn_rows distances neighbourIndices numElements2 [] = Inr []"
| "wknn_rows distances neighbourIndices numElements2 (i # is) =
     (if i < nrows neighbourIndices then
        (case scatter_row distances i (enumerate 0 (rows neighbourIndices ! i))
                (replicate numElements2 (Fin 0)) of
           Inl e \<Rightarrow> Inl e
         | Inr arow \<Rightarrow>
             (case wknn_rows distances neighbourIndices numElements2 is of
                Inl e \<Rightarrow> Inl e
              | Inr arows \<Rightarrow> Inr (arow # arows)))
      else Inl IndexError)"

text \<open>
  Lines 73 and 74: every row divided by its sum (\<open>sum(axis=1, keepdims=True)\<close> and
  a broadcast division; a zero sum gives \<open>nan\<close> or \<open>inf\<close>, not an exception).
\<close>

definition normalise_rows :: "npfloat list list \<Rightarrow> npfloat list list" where
  "normalise_rows A = map (\<lambda>r. map (\<lambda>x. np_div x (np_sum r)) r) A"

text \<open>
  \<open>helpers.nearest_neighbours\<close> is not part of the source file: it is the parameter
  \<open>nearest_neighbours\<close>, which returns the arrays \<open>distances\<close> and \<open>neighbourIndices\<close>
  or raises.
\<close>

type_synonym nn_oracle =
  "npfloat array2 \<Rightarrow> npfloat array2 \<Rightarrow> int \<Rightarrow> pyerror + (npfloat array2 \<times> int array2)"

definition wknn_affinity ::
  "nn_oracle \<Rightarrow> npfloat array2 \<Rightarrow> npfloat array2 \<Rightarrow> int \<Rightarrow> pyerror + npfloat array2" where
  "wknn_affinity nearest_neighbours features1 features2 k =
     (let numElements1 = nrows features1;
          numElements2 = nrows features2
      in case nearest_neighbours features1 features2 k of
           Inl e \<Rightarrow> Inl e
         | Inr (distances, neighbourIndices) \<Rightarrow>
             (case wknn_rows distances neighbourIndices numElements2 [0..<numElements1] of
                Inl e \<Rightarrow> Inl e
              | Inr affinity12 \<Rightarrow> Inr (Array2 numElements2 (normalise_rows affinity12))))"

text \<open>
  Modelled from the spec: \<open>helpers.nearest_neighbours\<close> is not in the source. The
  specification (section 6) gives its answer to \<open>query(setA, setB, k)\<close> as
  \<open>distances[N_A,k]\<close> and \<open>indices[N_A,k]\<close>, the distances Euclidean, the indices rows
  of \<open>setB\<close>; \<open>knn_result\<close> is this description as a predicate on the two arrays.
\<close>

definition knn_result :: "nat \<Rightarrow> nat \<Rightarrow> nat \<Rightarrow> npfloat array2 \<Rightarrow> int array2 \<Rightarrow> bool" where
  "knn_result nA nB k distances neighbourIndices =
     (nrows distances = nA \<and> nrows neighbourIndices = nA
      \<and> ncols distances = k \<and> ncols neighbourIndices = k
      \<and> wf_array2 distances \<and> wf_array2 neighbourIndices
      \<and> list_all (list_all (\<lambda>d. \<exists>x. d = Fin x \<and> 0 \<le> x)) (rows distances)
      \<and> list_all (list_all (\<lambda>idx. 0 \<le> idx \<and> idx < int nB)) (rows neighbourIndices))"

text \<open>A row of an affinity matrix: finite entries, none negative, of sum 1.\<close>

definition stochastic_row :: "npfloat list \<Rightarrow> bool" where
  "stochastic_row r = (list_all (\<lambda>x. \<exists>a. x = Fin a \<and> 0 \<le> a) r \<and> np_sum r = Fin 1)"

text \<open>An affinity matrix of shape \<open>(n, m)\<close>: every row is a row of affinities.\<close>

definition affinity_matrix :: "nat \<Rightarrow> nat \<Rightarrow> npfloat array2 \<Rightarrow> bool" where
  "affinity_matrix n m A =
     (nrows A = n \<and> ncols A = m \<and> wf_array2 A \<and> list_all stochastic_row (rows A))"

text \<open>
  Modelled from the spec: two answers of \<open>helpers.nearest_neighbours\<close>, used as
  concrete inputs. \<open>no_neighbours\<close> is the answer of shape \<open>(N_A, 0)\<close> to a query for
  \<open>k = 0\<close> neighbours; \<open>one_neighbour\<close> is the answer of shape \<open>(N_A, 1)\<close> to a query
  for \<open>k = 1\<close> when every source element coincides with the target element 0: that
  element, at distance 0.
\<close>

definition no_neighbours :: nn_oracle where
  "no_neighbours features1 features2 k =
     Inr (Array2 0 (replicate (nrows features1) []), Array2 0 (replicate (nrows features1) []))"

definition one_neighbour :: nn_oracle where
  "one_neighbour features1 features2 k =
     Inr (Array2 1 (replicate (nrows features1) [Fin 0]),
          Array2 1 (replicate (nrows features1) [0]))"

section \<open>Array operations of numpy used by the other routines\<close>

text \<open>
  An elementwise operation on two one-dimensional arrays, with numpy's broadcasting:
  equal lengths, or one of the two of length 1; otherwise \<open>ValueError\<close>.
\<close>

definition broadcast1 ::
  "(npfloat \<Rightarrow> npfloat \<Rightarrow> npfloat) \<Rightarrow> npfloat list \<Rightarrow> npfloat list \<Rightarrow> pyerror + npfloat list" where
  "broadcast1 f xs ys =
     (if length xs = length ys then Inr (map2 f xs ys)
      else if length xs = 1 then Inr (map (f (hd xs)) ys)
      else if length ys = 1 then Inr (map (\<lambda>x. f x (hd ys)) xs)
      else Inl ValueError)"

text \<open>The same on two-dimensional arrays: each axis is broadcast on its own.\<close>

definition broadcast2 ::
  "(npfloat \<Rightarrow> npfloat \<Rightarrow> npfloat) \<Rightarrow> npfloat array2 \<Rightarrow> npfloat array2 \<Rightarrow> pyerror + npfloat array2" where
  "broadcast2 f A B =
     (let ra = nrows A; rb = nrows B; ca = ncols A; cb = ncols B;
          r = (if ra = 1 then rb else ra); c = (if ca = 1 then cb else ca)
      in if (ra = rb \<or> ra = 1 \<or> rb = 1) \<and> (ca = cb \<or> ca = 1 \<or> cb = 1) then
           Inr (Array2 c
             (map (\<lambda>i. map (\<lambda>j.
                 f (rows A ! (if ra = 1 then 0 else i) ! (if ca = 1 then 0 else j))
                   (rows B ! (if rb = 1 then 0 else i) ! (if cb = 1 then 0 else j)))
               [0..<c]) [0..<r]))
         else Inl ValueError)"

definition column :: "'a array2 \<Rightarrow> nat \<Rightarrow> 'a list" where
  "column A j = map (\<lambda>r. r ! j) (rows A)"

definition transpose_array :: "'a array2 \<Rightarrow> 'a array2" where
  "transpose_array A = Array2 (nrows A) (map (column A) [0..<ncols A])"

definition scale_array :: "npfloat \<Rightarrow> npfloat array2 \<Rightarrow> npfloat array2" where
  "scale_array c A = Array2 (ncols A) (map (map (np_mul c)) (rows A))"

definition divide_array :: "npfloat array2 \<Rightarrow> npfloat \<Rightarrow> npfloat array2" where
  "divide_array A c = Array2 (ncols A) (map (map (\<lambda>x. np_div x c)) (rows A))"

text \<open>The inner product of two one-dimensional arrays of one length.\<close>

definition np_dot :: "npfloat list \<Rightarrow> npfloat list \<Rightarrow> npfloat" where
  "np_dot xs ys = np_sum (map2 np_mul xs ys)"

text \<open>\<open>a.dot(b)\<close> for one-dimensional arrays: \<open>ValueError\<close> when the lengths differ.\<close>

definition dot_vectors :: "npfloat list \<Rightarrow> npfloat list \<Rightarrow> pyerror + npfloat" where
  "dot_vectors xs ys = (if length xs = length ys then Inr (np_dot xs ys) else Inl ValueError)"

text \<open>\<open>A.dot(v)\<close> and \<open>A.dot(B)\<close>: \<open>ValueError\<close> when the inner dimensions differ.\<close>

definition dot_matrix_vector :: "npfloat array2 \<Rightarrow> npfloat list \<Rightarrow> pyerror + npfloat list" where
  "dot_matrix_vector A v =
     (if ncols A = length v then Inr (map (\<lambda>r. np_dot r v) (rows A)) else Inl ValueError)"

definition dot_matrices :: "npfloat array2 \<Rightarrow> npfloat array2 \<Rightarrow> pyerror + npfloat array2" where
  "dot_matrices A B =
     (if ncols A = nrows B then
        Inr (Array2 (ncols B) (map (\<lambda>r. map (\<lambda>j. np_dot r (column B j)) [0..<ncols B]) (rows A)))
      else Inl ValueError)"

text \<open>\<open>np.linalg.norm\<close> of a one-dimensional array.\<close>

definition np_norm :: "npfloat list \<Rightarrow> npfloat" where
  "np_norm v = np_sqrt (np_sum (map (\<lambda>x. np_mul x x) v))"

section \<open>Correspondence Resolver: \<open>affinity_to_correspondences\<close>\<close>

text \<open>Lines 127 to 130: one flag against the rounding limit, with a strict \<open>>\<close>.\<close>

definition round_flag :: "npfloat \<Rightarrow> npfloat \<Rightarrow> npfloat" where
  "round_flag flagRoundingLimit flag =
     (if np_greater flag flagRoundingLimit then Fin 1 else Fin 0)"

definition flagRoundingLimit_default :: npfloat where
  "flagRoundingLimit_default = Fin (9 / 10)"

definition affinity_to_correspondences ::
  "npfloat array2 \<Rightarrow> npfloat list \<Rightarrow> npfloat array2 \<Rightarrow> npfloat
     \<Rightarrow> pyerror + (npfloat array2 \<times> npfloat list)" where
  "affinity_to_correspondences features2 flags2 affinity flagRoundingLimit =
     (case dot_matrices affinity features2 of
        Inl e \<Rightarrow> Inl e
      | Inr correspondingFeatures \<Rightarrow>
          (case dot_matrix_vector affinity flags2 of
             Inl e \<Rightarrow> Inl e
           | Inr correspondingFlags \<Rightarrow>
               Inr (correspondingFeatures,
                    map (round_flag flagRoundingLimit) correspondingFlags)))"

section \<open>Inlier Classifier: \<open>inlier_detection\<close>\<close>

text \<open>
  The function returns nothing and writes \<open>inlierProbability\<close> in place: the model
  returns the array as the call leaves it, or the exception that ends the call (the
  array a failed call leaves behind is not part of the model).

  Lines 158 to 160, the flag pass over \<open>enumerate(correspondingFlags)\<close>: the write
  raises \<open>IndexError\<close> when \<open>inlierProbability\<close> is shorter than the flags.
\<close>

fun flag_pass :: "(nat \<times> npfloat) list \<Rightarrow> npfloat list \<Rightarrow> pyerror + npfloat list" where
  "flag_pass [] inlierProbability = Inr inlierProbability"
| "flag_pass ((i, flag) # rest) inlierProbability =
     (if np_less flag (Fin (1 / 2)) then
        (if i < length inlierProbability then flag_pass rest (inlierProbability[i := Fin 0])
         else Inl IndexError)
      else flag_pass rest inlierProbability)"

text \<open>
  Lines 169 and 177: \<open>np.linalg.norm(correspondingFeatures[i,:] - features[i,:])\<close>,
  for \<open>i\<close> below \<open>features.shape[0]\<close>.
\<close>

definition residual :: "npfloat array2 \<Rightarrow> npfloat array2 \<Rightarrow> nat \<Rightarrow> pyerror + npfloat" where
  "residual features correspondingFeatures i =
     (if i < nrows correspondingFeatures \<and> i < nrows features then
        (case broadcast1 np_sub (rows correspondingFeatures ! i) (rows features ! i) of
           Inl e \<Rightarrow> Inl e
         | Inr v \<Rightarrow> Inr (np_norm v))
      else Inl IndexError)"

text \<open>Lines 168 to 171: the two sums of the estimate of sigma.\<close>

fun sigma_sums ::
  "npfloat array2 \<Rightarrow> npfloat array2 \<Rightarrow> npfloat list \<Rightarrow> nat list \<Rightarrow> npfloat \<times> npfloat
     \<Rightarrow> pyerror + (npfloat \<times> npfloat)" where
  "sigma_sums features correspondingFeatures inlierProbability [] totals = Inr totals"
| "sigma_sums features correspondingFeatures inlierProbability (i # is)
       (sigmaNumerator, sigmaDenominator) =
     (case residual features correspondingFeatures i of
        Inl e \<Rightarrow> Inl e
      | Inr distance \<Rightarrow>
          (if i < length inlierProbability then
             sigma_sums features correspondingFeatures inlierProbability is
               (np_add sigmaNumerator (np_mul (np_mul (inlierProbability ! i) distance) distance),
                np_add sigmaDenominator (inlierProbability ! i))
           else Inl IndexError))"

text \<open>
  Lines 164 to 173. With no element the two sums are still the Python floats \<open>0.0\<close>
  and their quotient raises \<open>ZeroDivisionError\<close>; after one iteration they are numpy
  floats, whose quotient by zero is \<open>nan\<close> or \<open>inf\<close>.
\<close>

definition estimate_sigma ::
  "npfloat array2 \<Rightarrow> npfloat array2 \<Rightarrow> npfloat list \<Rightarrow> pyerror + npfloat" where
  "estimate_sigma features correspondingFeatures inlierProbability =
     (case sigma_sums features correspondingFeatures inlierProbability
             [0..<nrows features] (Fin 0, Fin 0) of
        Inl e \<Rightarrow> Inl e
      | Inr (sigmaNumerator, sigmaDenominator) \<Rightarrow>
          (if nrows features = 0 then Inl ZeroDivisionError
           else Inr (np_sqrt (np_div sigmaNumerator sigmaDenominator))))"

text \<open>Line 174 (\<open>lambdaa\<close>) and line 178 (\<open>probability\<close>), with the source's 3.14159.\<close>

definition gaussian_norm :: "npfloat \<Rightarrow> npfloat" where
  "gaussian_norm sigmaa =
     np_div (Fin 1) (np_mul (np_sqrt (Fin (2 * (314159 / 100000)))) sigmaa)"

definition cutoff_density :: "npfloat \<Rightarrow> npfloat \<Rightarrow> npfloat" where
  "cutoff_density sigmaa kappaa =
     np_mul (gaussian_norm sigmaa) (np_exp (np_mul (np_mul (Fin (- (1 / 2))) kappaa) kappaa))"

definition gaussian_density :: "npfloat \<Rightarrow> npfloat \<Rightarrow> npfloat" where
  "gaussian_density sigmaa distance =
     np_mul (gaussian_norm sigmaa)
       (np_exp (np_mul (Fin (- (1 / 2)))
          (np_mul (np_div distance sigmaa) (np_div distance sigmaa))))"

text \<open>Lines 176 to 179: every probability is overwritten from its residual.\<close>

fun distance_pass ::
  "npfloat array2 \<Rightarrow> npfloat array2 \<Rightarrow> npfloat \<Rightarrow> npfloat \<Rightarrow> nat list \<Rightarrow> npfloat list
     \<Rightarrow> pyerror + npfloat list" where
  "distance_pass features correspondingFeatures sigmaa lambdaa [] inlierProbability =
     Inr inlierProbability"
| "distance_pass features correspondingFeatures sigmaa lambdaa (i # is) inlierProbability =
     (case residual features correspondingFeatures i of
        Inl e \<Rightarrow> Inl e
      | Inr distance \<Rightarrow>
          (let probability = gaussian_density sigmaa distance
           in if i < length inlierProbability then
                distance_pass features correspondingFeatures sigmaa lambdaa is
                  (inlierProbability[i := np_div probability (np_add probability lambdaa)])
              else Inl IndexError))"

text \<open>
  Lines 183 to 189: the dot product of the two slices \<open>[i,3:6]\<close> (a slice never
  raises, a dot product of slices of different lengths does), rescaled.
\<close>

definition normal_dot :: "npfloat array2 \<Rightarrow> npfloat array2 \<Rightarrow> nat \<Rightarrow> pyerror + npfloat" where
  "normal_dot features correspondingFeatures i =
     (if i < nrows features \<and> i < nrows correspondingFeatures then
        dot_vectors (take 3 (drop 3 (rows features ! i)))
          (take 3 (drop 3 (rows correspondingFeatures ! i)))
      else Inl IndexError)"

definition rescale_dot :: "npfloat \<Rightarrow> npfloat" where
  "rescale_dot dotProduct = np_add (np_div dotProduct (Fin 2)) (Fin (1 / 2))"

text \<open>Lines 182 to 190: every probability is multiplied by the rescaled dot product.\<close>

fun normal_pass ::
  "npfloat array2 \<Rightarrow> npfloat array2 \<Rightarrow> nat list \<Rightarrow> npfloat list \<Rightarrow> pyerror + npfloat list" where
  "normal_pass features correspondingFeatures [] inlierProbability = Inr inlierProbability"
| "normal_pass features correspondingFeatures (i # is) inlierProbability =
     (case normal_dot features correspondingFeatures i of
        Inl e \<Rightarrow> Inl e
      | Inr dotProduct \<Rightarrow>
          (let probability = rescale_dot dotProduct
           in if i < length inlierProbability then
                normal_pass features correspondingFeatures is
                  (inlierProbability[i := np_mul (inlierProbability ! i) probability])
              else Inl IndexError))"

definition inlier_detection ::
  "npfloat array2 \<Rightarrow> npfloat array2 \<Rightarrow> npfloat list \<Rightarrow> npfloat list \<Rightarrow> npfloat
     \<Rightarrow> pyerror + npfloat list" where
  "inlier_detection features correspondingFeatures correspondingFlags inlierProbability kappaa =
     (let numElements = nrows features
      in case flag_pass (enumerate 0 correspondingFlags) inlierProbability of
           Inl e \<Rightarrow> Inl e
         | Inr flagged \<Rightarrow>
             (case estimate_sigma features correspondingFeatures flagged of
                Inl e \<Rightarrow> Inl e
              | Inr sigmaa \<Rightarrow>
                  (case distance_pass features correspondingFeatures sigmaa
                          (cutoff_density sigmaa kappaa) [0..<numElements] flagged of
                     Inl e \<Rightarrow> Inl e
                   | Inr weighted \<Rightarrow>
                       normal_pass features correspondingFeatures [0..<numElements] weighted)))"

section \<open>Affinity Fuser: \<open>fuse_affinities\<close>\<close>

text \<open>What a call returns to its caller.\<close>

datatype pyvalue = PyNone | PyBool bool | PyArray "npfloat array2"

text \<open>
  Lines 94 to 96: the value the local name \<open>affinityFused\<close> is bound to when the
  function returns.
\<close>

definition fused_matrix :: "npfloat array2 \<Rightarrow> npfloat array2 \<Rightarrow> pyerror + npfloat array2" where
  "fused_matrix affinity12 affinity21 =
     (case broadcast2 np_add affinity12 (transpose_array affinity21) of
        Inl e \<Rightarrow> Inl e
      | Inr affinityFused \<Rightarrow> Inr (Array2 (ncols affinityFused) (normalise_rows (rows affinityFused))))"

text \<open>
  The call: lines 94 and 96 bind the local name \<open>affinityFused\<close> to new arrays, no
  array of the caller is written, and line 98 returns \<open>True\<close>. The result is the
  returned value with the three argument arrays as the call leaves them.
\<close>

definition fuse_affinities ::
  "npfloat array2 \<Rightarrow> npfloat array2 \<Rightarrow> npfloat array2
     \<Rightarrow> pyerror + (pyvalue \<times> npfloat array2 \<times> npfloat array2 \<times> npfloat array2)" where
  "fuse_affinities affinity12 affinity21 affinityFused =
     (case fused_matrix affinity12 affinity21 of
        Inl e \<Rightarrow> Inl e
      | Inr fused \<Rightarrow> Inr (PyBool True, affinity12, affinity21, affinityFused))"

section \<open>Rigid Transform Estimator: \<open>rigid_transformation\<close>\<close>

text \<open>
  The body of \<open>rigid_transformation\<close> reads five names that neither its parameter list
  nor its body binds. Python looks such a name up in the scope of the module when the
  statement runs and raises \<open>NameError\<close> when it is not bound there. The module scope
  is a record of what the five names are bound to (\<open>None\<close>: not bound), with the
  types the body uses them at.
\<close>

record module_scope =
  numFloatingVertices :: "int option"
  floatingPositions :: "npfloat array2 option"
  floatingWeights :: "npfloat list option"
  correspondingPositions :: "npfloat array2 option"
  adjustScale :: "bool option"

text \<open>
  The scope of \<^verbatim>\<open>core.py\<close> as the file is written: its statements at module level
  bind \<open>sys\<close>, \<open>np\<close>, \<open>linalg\<close>, \<open>spatial\<close>, \<open>helpers\<close> and the five functions, and
  \<open>from openmesh import *\<close> brings the names of the OpenMesh bindings, taken to be
  none of the five. So none of the five names is bound.
\<close>

definition core_module_scope :: module_scope where
  "core_module_scope =
     \<lparr>numFloatingVertices = None, floatingPositions = None, floatingWeights = None,
      correspondingPositions = None, adjustScale = None\<rparr>"

definition lookup :: "'a option \<Rightarrow> pyerror + 'a" where
  "lookup binding = (case binding of None \<Rightarrow> Inl NameError | Some v \<Rightarrow> Inr v)"

text \<open>Sequencing: the first exception ends the computation.\<close>

definition and_then :: "pyerror + 'a \<Rightarrow> ('a \<Rightarrow> pyerror + 'b) \<Rightarrow> pyerror + 'b" where
  "and_then m f = (case m of Inl e \<Rightarrow> Inl e | Inr v \<Rightarrow> f v)"

text \<open>A \<open>for\<close> loop over a list of indices, with the state the body updates.\<close>

fun for_loop :: "(nat \<Rightarrow> 's \<Rightarrow> pyerror + 's) \<Rightarrow> nat list \<Rightarrow> 's \<Rightarrow> pyerror + 's" where
  "for_loop body [] s = Inr s"
| "for_loop body (i # is) s =
     (case body i s of Inl e \<Rightarrow> Inl e | Inr s' \<Rightarrow> for_loop body is s')"

text \<open>\<open>floatingWeights[i]\<close>, and \<open>P[:,i]\<close> for a name \<open>P\<close> of the module scope.\<close>

definition weight_at :: "module_scope \<Rightarrow> nat \<Rightarrow> pyerror + npfloat" where
  "weight_at g i =
     and_then (lookup (floatingWeights g))
       (\<lambda>w. if i < length w then Inr (w ! i) else Inl IndexError)"

definition column_at :: "npfloat array2 option \<Rightarrow> nat \<Rightarrow> pyerror + npfloat list" where
  "column_at binding i =
     and_then (lookup binding)
       (\<lambda>P. if i < ncols P then Inr (column P i) else Inl IndexError)"

definition entry :: "npfloat array2 \<Rightarrow> nat \<Rightarrow> nat \<Rightarrow> pyerror + npfloat" where
  "entry A i j =
     (if i < nrows A \<and> j < ncols A \<and> j < length (rows A ! i) then Inr (rows A ! i ! j)
      else Inl IndexError)"

definition outer :: "npfloat list \<Rightarrow> npfloat list \<Rightarrow> npfloat array2" where
  "outer xs ys = Array2 (length ys) (map (\<lambda>x. map (np_mul x) ys) xs)"

definition identity :: "nat \<Rightarrow> npfloat array2" where
  "identity n = Array2 n (map (\<lambda>i. map (\<lambda>j. if i = j then Fin 1 else Fin 0) [0..<n]) [0..<n])"

definition zeros :: "nat \<Rightarrow> nat \<Rightarrow> npfloat array2" where
  "zeros n m = Array2 m (replicate n (replicate m (Fin 0)))"

definition trace :: "npfloat array2 \<Rightarrow> npfloat" where
  "trace A = np_sum (map (\<lambda>i. rows A ! i ! i) [0..<min (nrows A) (ncols A)])"

text \<open>Lines 215 to 218: one iteration of the loop of the weighted centroids.\<close>

fun centroid_step ::
  "module_scope \<Rightarrow> nat \<Rightarrow> npfloat list \<times> npfloat list \<times> npfloat
     \<Rightarrow> pyerror + (npfloat list \<times> npfloat list \<times> npfloat)" where
  "centroid_step g i (floatingCentroid, correspondingCentroid, weightSum) =
     and_then (weight_at g i) (\<lambda>w1.
     and_then (column_at (floatingPositions g) i) (\<lambda>x.
     and_then (broadcast1 np_add floatingCentroid (map (np_mul w1) x)) (\<lambda>floatingCentroid'.
     and_then (weight_at g i) (\<lambda>w2.
     and_then (column_at (correspondingPositions g) i) (\<lambda>y.
     and_then (broadcast1 np_add correspondingCentroid (map (np_mul w2) y)) (\<lambda>correspondingCentroid'.
     and_then (weight_at g i) (\<lambda>w3.
     Inr (floatingCentroid', correspondingCentroid', np_add weightSum w3))))))))"

text \<open>Line 226: one iteration of the loop of the cross variance matrix.\<close>

definition cross_variance_step ::
  "module_scope \<Rightarrow> nat \<Rightarrow> npfloat array2 \<Rightarrow> pyerror + npfloat array2" where
  "cross_variance_step g i crossVarianceMatrix =
     and_then (weight_at g i) (\<lambda>w.
     and_then (column_at (floatingPositions g) i) (\<lambda>x.
     and_then (column_at (correspondingPositions g) i) (\<lambda>y.
     broadcast2 np_add crossVarianceMatrix (scale_array w (outer x y)))))"

text \<open>
  Lines 230 to 242: the matrix \<open>Q\<close> from the cross variance matrix. The block
  \<open>Q[1:4,1:4]\<close> is assigned with numpy's broadcasting of the assigned value.
\<close>

definition quaternion_matrix :: "npfloat array2 \<Rightarrow> pyerror + npfloat array2" where
  "quaternion_matrix crossVarianceMatrix =
     and_then (broadcast2 np_sub crossVarianceMatrix (transpose_array crossVarianceMatrix))
       (\<lambda>antiSymmetricMatrix.
     and_then (entry antiSymmetricMatrix 1 2) (\<lambda>delta0.
     and_then (entry antiSymmetricMatrix 2 0) (\<lambda>delta1.
     and_then (entry antiSymmetricMatrix 0 1) (\<lambda>delta2.
     and_then (broadcast2 np_add crossVarianceMatrix (transpose_array crossVarianceMatrix))
       (\<lambda>symmetric.
     and_then (broadcast2 np_sub symmetric
                 (scale_array (trace crossVarianceMatrix) (identity 3))) (\<lambda>block.
     and_then (broadcast2 (\<lambda>old new. new) (zeros 3 3) block) (\<lambda>block33.
     Inr (Array2 4
       ((trace crossVarianceMatrix # [delta0, delta1, delta2])
        # map2 (\<lambda>d r. d # r) [delta0, delta1, delta2] (rows block33))))))))))"

text \<open>
  \<open>np.linalg.eig\<close> is a parameter: it returns the eigenvalues and the array whose
  columns are the eigenvectors, or raises.
\<close>

type_synonym eig_oracle = "npfloat array2 \<Rightarrow> pyerror + (npfloat list \<times> npfloat array2)"

text \<open>Lines 246 to 251: the index of the first eigenvalue of largest absolute value.\<close>

fun max_eigenvalue :: "(nat \<times> npfloat) list \<Rightarrow> nat \<times> npfloat \<Rightarrow> nat \<times> npfloat" where
  "max_eigenvalue [] (indexMaxVal, maxVal) = (indexMaxVal, maxVal)"
| "max_eigenvalue ((i, eigenValue) # rest) (indexMaxVal, maxVal) =
     (if np_greater (np_abs eigenValue) maxVal
      then max_eigenvalue rest (i, np_abs eigenValue)
      else max_eigenvalue rest (indexMaxVal, maxVal))"

text \<open>Lines 255 to 266: the rotation matrix of the quaternion \<open>rotQ\<close>.\<close>

definition np_square :: "npfloat \<Rightarrow> npfloat" where
  "np_square x = np_mul x x"

definition rotation_of_quaternion :: "npfloat list \<Rightarrow> pyerror + npfloat array2" where
  "rotation_of_quaternion rotQ =
     (if length rotQ < 4 then Inl IndexError
      else
        (let q0 = rotQ ! 0; q1 = rotQ ! 1; q2 = rotQ ! 2; q3 = rotQ ! 3
         in Inr (Array2 3
           [[np_sub (np_sub (np_add (np_square q0) (np_square q1)) (np_square q2)) (np_square q3),
             np_mul (Fin 2) (np_sub (np_mul q1 q2) (np_mul q0 q3)),
             np_mul (Fin 2) (np_add (np_mul q1 q3) (np_mul q0 q2))],
            [np_mul (Fin 2) (np_add (np_mul q1 q2) (np_mul q0 q3)),
             np_sub (np_sub (np_add (np_square q0) (np_square q2)) (np_square q1)) (np_square q3),
             np_mul (Fin 2) (np_sub (np_mul q2 q3) (np_mul q0 q1))],
            [np_mul (Fin 2) (np_sub (np_mul q1 q3) (np_mul q0 q2)),
             np_mul (Fin 2) (np_add (np_mul q2 q3) (np_mul q0 q1)),
             np_sub (np_sub (np_add (np_square q0) (np_square q3)) (np_square q1)) (np_square q2)]])))"

text \<open>Lines 273 to 276: one iteration of the loop of the scale factor.\<close>

fun scale_step ::
  "module_scope \<Rightarrow> npfloat array2 \<Rightarrow> npfloat list \<Rightarrow> npfloat list \<Rightarrow> nat \<Rightarrow> npfloat \<times> npfloat
     \<Rightarrow> pyerror + (npfloat \<times> npfloat)" where
  "scale_step g rotMatTemp floatingCentroid correspondingCentroid i (numerator, denominator) =
     and_then (column_at (floatingPositions g) i) (\<lambda>x.
     and_then (broadcast1 np_sub x floatingCentroid) (\<lambda>dx.
     and_then (dot_matrix_vector rotMatTemp dx) (\<lambda>centeredFloatingPosition.
     and_then (column_at (correspondingPositions g) i) (\<lambda>y.
     and_then (broadcast1 np_sub y correspondingCentroid) (\<lambda>centeredCorrespondingPosition.
     and_then (weight_at g i) (\<lambda>w1.
     and_then (dot_vectors centeredCorrespondingPosition centeredFloatingPosition) (\<lambda>d1.
     and_then (weight_at g i) (\<lambda>w2.
     and_then (dot_vectors centeredFloatingPosition centeredFloatingPosition) (\<lambda>d2.
     Inr (np_add numerator (np_mul w1 d1), np_add denominator (np_mul w2 d2)))))))))))"

text \<open>
  Lines 268 to 277. When the loop runs no iteration, \<open>numerator\<close> and \<open>denominator\<close>
  are the Python floats \<open>0.0\<close> and the division raises \<open>ZeroDivisionError\<close>.
\<close>

definition scale_factor ::
  "module_scope \<Rightarrow> nat list \<Rightarrow> npfloat array2 \<Rightarrow> npfloat list \<Rightarrow> npfloat list \<Rightarrow> pyerror + npfloat" where
  "scale_factor g indices rotMatTemp floatingCentroid correspondingCentroid =
     and_then (lookup (adjustScale g)) (\<lambda>adjust.
       if adjust then
         and_then (for_loop (scale_step g rotMatTemp floatingCentroid correspondingCentroid)
                     indices (Fin 0, Fin 0))
           (\<lambda>(numerator, denominator).
              if indices = [] then Inl ZeroDivisionError
              else Inr (np_div numerator denominator))
       else Inr (Fin 1))"

text \<open>
  Lines 280 to 286: the translation, the two homogeneous matrices and their product
  \<open>rotationMatrix.dot(translationMatrix)\<close>.
\<close>

definition transformation_matrix ::
  "npfloat \<Rightarrow> npfloat array2 \<Rightarrow> npfloat list \<Rightarrow> npfloat list \<Rightarrow> pyerror + npfloat array2" where
  "transformation_matrix scaleFactor rotMatTemp floatingCentroid correspondingCentroid =
     and_then (dot_matrix_vector rotMatTemp floatingCentroid) (\<lambda>rotated.
     and_then (broadcast1 np_sub correspondingCentroid (map (np_mul scaleFactor) rotated))
       (\<lambda>translation.
     and_then (broadcast2 (\<lambda>old new. new) (zeros 3 1) (Array2 1 (map (\<lambda>t. [t]) translation)))
       (\<lambda>translationColumn.
     and_then (broadcast2 (\<lambda>old new. new) (zeros 3 3) (scale_array scaleFactor rotMatTemp))
       (\<lambda>rotationBlock.
     let translationMatrix =
           Array2 4 (map2 (\<lambda>r t. take 3 r @ t) (rows (identity 4)) (rows translationColumn)
                     @ [[Fin 0, Fin 0, Fin 0, Fin 1]]);
         rotationMatrix =
           Array2 4 (map (\<lambda>r. r @ [Fin 0]) (rows rotationBlock)
                     @ [[Fin 0, Fin 0, Fin 0, Fin 1]])
     in dot_matrices rotationMatrix translationMatrix))))"

text \<open>
  Lines 293 to 295: one iteration of the loop that transforms the positions. The
  state is the array \<open>floatingPositions\<close>, written in place, and the local array
  \<open>floatingPosition\<close>. Both assignments broadcast the assigned value.
\<close>

definition set_column :: "npfloat array2 \<Rightarrow> nat \<Rightarrow> npfloat list \<Rightarrow> npfloat array2" where
  "set_column P i v = Array2 (ncols P) (map2 (\<lambda>r x. r[i := x]) (rows P) v)"

fun apply_step ::
  "npfloat array2 \<Rightarrow> nat \<Rightarrow> npfloat array2 \<times> npfloat list
     \<Rightarrow> pyerror + (npfloat array2 \<times> npfloat list)" where
  "apply_step transformationMatrix i (positions, floatingPosition) =
     and_then (column_at (Some positions) i) (\<lambda>x.
     and_then (broadcast1 (\<lambda>old new. new) (take 3 floatingPosition) x) (\<lambda>xyz.
       if length xyz \<noteq> 3 then Inl ValueError
       else
         (let floatingPosition' = xyz @ drop 3 floatingPosition
          in and_then (dot_matrix_vector transformationMatrix floatingPosition') (\<lambda>moved.
             and_then (broadcast1 (\<lambda>old new. new) x (take 3 moved)) (\<lambda>column'.
               if length column' \<noteq> length x then Inl ValueError
               else Inr (set_column positions i column', floatingPosition'))))))"

text \<open>
  The function. Its parameters \<open>features\<close>, \<open>correspondingFeatures\<close> and \<open>weights\<close>
  are not read. The body ends after the last loop without a \<open>return\<close> statement: the
  call returns \<open>None\<close>, and the result gives the module scope as the call leaves it,
  where the array bound to \<open>floatingPositions\<close> has been written in place. What the
  two \<open>print\<close> calls write is not part of the model.
\<close>

definition rigid_transformation ::
  "eig_oracle \<Rightarrow> module_scope \<Rightarrow> npfloat array2 \<Rightarrow> npfloat array2 \<Rightarrow> npfloat list
     \<Rightarrow> pyerror + (pyvalue \<times> module_scope)" where
  "rigid_transformation eig g features correspondingFeatures weights =
     and_then (lookup (numFloatingVertices g)) (\<lambda>n.
     let indices = [0..<nat n] in
     and_then (for_loop (centroid_step g) indices
                 (replicate 3 (Fin 0), replicate 3 (Fin 0), Fin 0))
       (\<lambda>(floatingSum, correspondingSum, weightSum).
     let floatingCentroid = map (\<lambda>x. np_div x weightSum) floatingSum;
         correspondingCentroid = map (\<lambda>x. np_div x weightSum) correspondingSum in
     and_then (for_loop (cross_variance_step g) indices (zeros 3 3)) (\<lambda>crossSum.
     and_then (broadcast2 np_sub (divide_array crossSum weightSum)
                 (outer floatingCentroid correspondingCentroid)) (\<lambda>crossVarianceMatrix.
     and_then (quaternion_matrix crossVarianceMatrix) (\<lambda>Q.
     and_then (eig Q) (\<lambda>(eigenValues, eigenVectors).
     and_then (column_at (Some eigenVectors)
                 (fst (max_eigenvalue (enumerate 0 eigenValues) (0, Fin 0)))) (\<lambda>rotQ.
     and_then (rotation_of_quaternion rotQ) (\<lambda>rotMatTemp.
     and_then (scale_factor g indices rotMatTemp floatingCentroid correspondingCentroid)
       (\<lambda>scaleFactor.
     and_then (transformation_matrix scaleFactor rotMatTemp floatingCentroid
                 correspondingCentroid) (\<lambda>transformationMatrix.
     and_then (lookup (floatingPositions g)) (\<lambda>positions.
     and_then (for_loop (apply_step transformationMatrix) indices
                 (positions, replicate 4 (Fin 1)))
       (\<lambda>(positions', floatingPosition).
     Inr (PyNone, g\<lparr>floatingPositions := Some positions'\<rparr>)))))))))))))"

text \<open>
  A concrete input. For a diagonal matrix, the diagonal entries are eigenvalues and
  the columns of the identity are their eigenvectors; \<open>eig_of_diagonal\<close> is the
  oracle that answers so. In \<open>scaled_scope\<close> the five names are bound: two points
  \<open>(1, 0, 0)\<close> and \<open>(-1, 0, 0)\<close> with the weights 1, their correspondences
  \<open>(3, 0, 0)\<close> and \<open>(-1, 0, 0)\<close> (the points scaled by 2 and moved by 1 along the
  first axis), and \<open>adjustScale = True\<close>. The matrix \<open>Q\<close> of this input is diagonal.
\<close>

definition eig_of_diagonal :: eig_oracle where
  "eig_of_diagonal Q = Inr (map (\<lambda>i. rows Q ! i ! i) [0..<4], identity 4)"

definition scaled_scope :: module_scope where
  "scaled_scope =
     \<lparr>numFloatingVertices = Some 2,
      floatingPositions = Some (Array2 2 [[Fin 1, Fin (- 1)], [Fin 0, Fin 0], [Fin 0, Fin 0]]),
      floatingWeights = Some [Fin 1, Fin 1],
      correspondingPositions = Some (Array2 2 [[Fin 3, Fin (- 1)], [Fin 0, Fin 0], [Fin 0, Fin 0]]),
      adjustScale = Some True\<rparr>"

section \<open>Definitions for the properties of the Inlier Classifier\<close>

text \<open>
  Lines 179 and 190 together: the value the last two passes leave in
  \<open>inlierProbability[i]\<close>, from sigma, kappa, the residual and the dot product of the
  normals of element \<open>i\<close>.
\<close>

definition final_probability :: "npfloat \<Rightarrow> npfloat \<Rightarrow> npfloat \<Rightarrow> npfloat \<Rightarrow> npfloat" where
  "final_probability sigmaa kappaa distance dotProduct =
     np_mul (np_div (gaussian_density sigmaa distance)
               (np_add (gaussian_density sigmaa distance) (cutoff_density sigmaa kappaa)))
       (np_add (np_div dotProduct (Fin 2)) (Fin (1 / 2)))"

text \<open>The sigma of a call: the estimate from the probabilities the flag pass leaves.\<close>

definition sigma_of_input ::
  "npfloat array2 \<Rightarrow> npfloat array2 \<Rightarrow> npfloat list \<Rightarrow> npfloat list \<Rightarrow> pyerror + npfloat" where
  "sigma_of_input features correspondingFeatures correspondingFlags inlierProbability =
     (case flag_pass (enumerate 0 correspondingFlags) inlierProbability of
        Inl e \<Rightarrow> Inl e
      | Inr flagged \<Rightarrow> estimate_sigma features correspondingFeatures flagged)"

text \<open>
  Two elements as a concrete input: both at the origin with normal \<open>(0, 0, 1)\<close>;
  the correspondence of the first is the element itself, that of the second lies at
  distance 1 with the same normal.
\<close>

definition sample_features :: "npfloat array2" where
  "sample_features =
     Array2 6 [[Fin 0, Fin 0, Fin 0, Fin 0, Fin 0, Fin 1], [Fin 0, Fin 0, Fin 0, Fin 0, Fin 0, Fin 1]]"

definition sample_correspondences :: "npfloat array2" where
  "sample_correspondences =
     Array2 6 [[Fin 0, Fin 0, Fin 0, Fin 0, Fin 0, Fin 1], [Fin 1, Fin 0, Fin 0, Fin 0, Fin 0, Fin 1]]"

section \<open>Properties of the Affinity Builder\<close>

lemma clamp_distance_cases:
  "clamp_distance d = NaN \<and> d = NaN
   \<or> clamp_distance d = PInf \<and> d = PInf
   \<or> (\<exists>x. clamp_distance d = Fin x \<and> 1 / 1000 \<le> x)"
proof (cases d)
  case (Fin x1)
  show ?thesis
  proof (cases "x1 < 1 / 1000")
    case True
    then have "clamp_distance d = Fin (1 / 1000)" using Fin by (simp add: clamp_distance_def)
    then show ?thesis by blast
  next
    case False
    then have "clamp_distance d = Fin x1" using Fin by (simp add: clamp_distance_def)
    then show ?thesis using False by auto
  qed
next
  case NInf
  then have "clamp_distance d = Fin (1 / 1000)" by (simp add: clamp_distance_def)
  then show ?thesis by blast
qed (simp_all add: clamp_distance_def)

lemma affinity_element_Fin:
  "\<exists>w. affinity_element (Fin x) = Fin w \<and> 1 / 10000 \<le> w \<and> w \<le> 1000000"
proof -
  obtain y where y: "clamp_distance (Fin x) = Fin y" "1 / 1000 \<le> y"
    using clamp_distance_cases [of "Fin x"] by auto
  have pos: "y \<noteq> 0" using y(2) by auto
  have "1 / 1000 * (1 / 1000) \<le> y * y"
    using y(2) by (intro mult_mono) simp_all
  then have lo: "1 / 1000000 \<le> y * y" by simp
  have "1 / (y * y) \<le> 1 / (1 / 1000000)"
    using lo by (intro divide_left_mono) (simp_all add: pos)
  then have up: "1 / (y * y) \<le> 1000000" by simp
  show ?thesis
  proof (cases "1 / (y * y) < 1 / 10000")
    case True
    then have "affinity_element (Fin x) = Fin (1 / 10000)"
      using y(1) pos by (simp add: affinity_element_def Let_def)
    then show ?thesis by (intro exI [of _ "1 / 10000"]) simp
  next
    case False
    then have "affinity_element (Fin x) = Fin (1 / (y * y))"
      using y(1) pos by (simp add: affinity_element_def Let_def)
    then show ?thesis using False up by (intro exI [of _ "1 / (y * y)"]) simp
  qed
qed

lemma np_sum_Fin_aux: "foldl np_add (Fin a) (map Fin xs) = Fin (a + sum_list xs)"
  by (induction xs arbitrary: a) (simp_all add: add.assoc)

lemma np_sum_Fin: "np_sum (map Fin xs) = Fin (sum_list xs)"
  by (simp add: np_sum_def np_sum_Fin_aux)

lemma sum_list_update_pos:
  fixes xs :: "real list"
  assumes "\<forall>x\<in>set xs. 0 \<le> x" "c < length xs" "0 < w"
  shows "0 < sum_list (xs[c := w])"
proof -
  have "w \<in> set (xs[c := w])" using assms(2) by (simp add: set_update_memI)
  moreover have "\<And>x. x \<in> set (xs[c := w]) \<Longrightarrow> 0 \<le> x"
    using assms(1,3) by (metis insertE less_eq_real_def set_update_subset_insert subsetD)
  ultimately have "w \<le> sum_list (xs[c := w])" by (rule member_le_sum_list)
  then show ?thesis using assms(3) by linarith
qed

lemma py_index_in_range: "0 \<le> idx \<Longrightarrow> idx < int n \<Longrightarrow> py_index n idx = Some (nat idx)"
  by (simp add: py_index_def)

lemma scatter_row_nonneg:
  assumes "i < nrows distances"
    and "\<forall>d\<in>set (rows distances ! i). \<exists>x. d = Fin x \<and> 0 \<le> x"
    and "\<forall>(j, idx)\<in>set js. j < length (rows distances ! i) \<and> 0 \<le> idx \<and> idx < int (length xs)"
    and "\<forall>x\<in>set xs. 0 \<le> x"
  shows "\<exists>ys. scatter_row distances i js (map Fin xs) = Inr (map Fin ys)
            \<and> length ys = length xs \<and> (\<forall>y\<in>set ys. 0 \<le> y)
            \<and> (js \<noteq> [] \<longrightarrow> 0 < sum_list ys)"
  using assms(3,4)
proof (induction js arbitrary: xs)
  case Nil
  then show ?case by (intro exI [of _ xs]) simp
next
  case (Cons p js)
  obtain j idx where p: "p = (j, idx)" by (cases p)
  from Cons.prems(1) p have j: "j < length (rows distances ! i)"
    and idx: "0 \<le> idx" "idx < int (length xs)" by auto
  from assms(2) j obtain x where x: "rows distances ! i ! j = Fin x" by (meson nth_mem)
  obtain w where w: "affinity_element (Fin x) = Fin w" "1 / 10000 \<le> w"
    using affinity_element_Fin by blast
  let ?xs' = "xs[nat idx := w]"
  have c: "nat idx < length xs" using idx by simp
  have nonneg': "\<forall>x\<in>set ?xs'. 0 \<le> x"
  proof
    fix v assume "v \<in> set ?xs'"
    then have "v = w \<or> v \<in> set xs" using set_update_subset_insert by fastforce
    then show "0 \<le> v" using w(2) Cons.prems(2) by auto
  qed
  have rest: "\<forall>(j, idx)\<in>set js. j < length (rows distances ! i) \<and> 0 \<le> idx \<and> idx < int (length ?xs')"
    using Cons.prems(1) by auto
  from Cons.IH [OF rest nonneg'] obtain ys where ys:
    "scatter_row distances i js (map Fin ?xs') = Inr (map Fin ys)"
    "length ys = length ?xs'" "\<forall>y\<in>set ys. 0 \<le> y" "js \<noteq> [] \<longrightarrow> 0 < sum_list ys"
    by blast
  have step: "scatter_row distances i (p # js) (map Fin xs) = scatter_row distances i js (map Fin ?xs')"
    using p j idx assms(1) x w(1) by (simp add: py_index_in_range map_update)
  have pos: "0 < sum_list ys"
  proof (cases js)
    case Nil
    with ys(1) have "ys = ?xs'" by (simp add: inj_map_eq_map inj_on_def)
    moreover have "0 < sum_list ?xs'"
      using sum_list_update_pos [OF Cons.prems(2) c, of w] w(2) by simp
    ultimately show ?thesis by simp
  next
    case (Cons a list)
    then show ?thesis using ys(4) by simp
  qed
  show ?case using step ys pos by auto
qed

lemma normalised_row_stochastic:
  assumes "\<forall>x\<in>set xs. 0 \<le> x" "0 < sum_list xs"
  shows "stochastic_row (map (\<lambda>x. np_div x (np_sum (map Fin xs))) (map Fin xs))"
proof -
  let ?s = "sum_list xs"
  have eq: "map (\<lambda>x. np_div x (np_sum (map Fin xs))) (map Fin xs) = map Fin (map (\<lambda>x. x / ?s) xs)"
    using assms(2) by (simp add: np_sum_Fin)
  have "sum_list (map (\<lambda>x. x / ?s) xs) = ?s / ?s"
    by (simp add: divide_inverse sum_list_mult_const)
  then have one: "sum_list (map (\<lambda>x. x / ?s) xs) = 1" using assms(2) by simp
  have nn: "list_all (\<lambda>x. \<exists>a. x = Fin a \<and> 0 \<le> a) (map Fin (map (\<lambda>x. x / ?s) xs))"
    using assms by (auto simp: list_all_iff)
  have "np_sum (map Fin (map (\<lambda>x. x / ?s) xs)) = Fin 1"
    unfolding np_sum_Fin one ..
  then show ?thesis unfolding eq stochastic_row_def using nn by blast
qed

lemma wknn_rows_ok:
  assumes "knn_result nA nB k distances neighbourIndices" "1 \<le> k" "\<forall>i\<in>set is. i < nA"
  shows "\<exists>A. wknn_rows distances neighbourIndices nB is = Inr A \<and> length A = length is
           \<and> (\<forall>r\<in>set A. \<exists>xs. r = map Fin xs \<and> length xs = nB \<and> (\<forall>x\<in>set xs. 0 \<le> x) \<and> 0 < sum_list xs)"
  using assms(3)
proof (induction "is")
  case Nil
  then show ?case by simp
next
  case (Cons i "is")
  from Cons.prems have i: "i < nA" by simp
  from assms(1) i have iD: "i < nrows distances" and iI: "i < nrows neighbourIndices"
    by (simp_all add: knn_result_def)
  let ?irow = "rows neighbourIndices ! i"
  let ?drow = "rows distances ! i"
  have lenI: "length ?irow = k" and lenD: "length ?drow = k"
    using assms(1) iD iI by (auto simp: knn_result_def wf_array2_def list_all_length nrows_def)
  have dist: "\<forall>d\<in>set ?drow. \<exists>x. d = Fin x \<and> 0 \<le> x"
    using assms(1) iD by (auto simp: knn_result_def list_all_length nrows_def in_set_conv_nth)
  have idxs: "\<forall>idx\<in>set ?irow. 0 \<le> idx \<and> idx < int nB"
    using assms(1) iI by (auto simp: knn_result_def list_all_length nrows_def in_set_conv_nth)
  have js: "\<forall>(j, idx)\<in>set (enumerate 0 ?irow).
              j < length ?drow \<and> 0 \<le> idx \<and> idx < int (length (replicate nB (0::real)))"
    using idxs lenI lenD by (auto simp: in_set_enumerate_eq)
  have ne: "enumerate 0 ?irow \<noteq> []"
    using lenI assms(2) by (metis length_enumerate length_greater_0_conv less_eq_Suc_le One_nat_def)
  have zeros: "\<forall>x\<in>set (replicate nB (0::real)). 0 \<le> x" by simp
  from scatter_row_nonneg [OF iD dist js zeros] ne obtain ys where ys:
    "scatter_row distances i (enumerate 0 ?irow) (map Fin (replicate nB 0)) = Inr (map Fin ys)"
    "length ys = nB" "\<forall>y\<in>set ys. 0 \<le> y" "0 < sum_list ys"
    by auto
  from Cons.IH Cons.prems obtain A where A:
    "wknn_rows distances neighbourIndices nB is = Inr A" "length A = length is"
    "\<forall>r\<in>set A. \<exists>xs. r = map Fin xs \<and> length xs = nB \<and> (\<forall>x\<in>set xs. 0 \<le> x) \<and> 0 < sum_list xs"
    by auto
  have "wknn_rows distances neighbourIndices nB (i # is) = Inr (map Fin ys # A)"
    using iI ys(1) A(1) by simp
  then show ?case using ys A by auto
qed

text \<open>
  Claim C5. When the oracle answers a query with \<open>k \<ge> 1\<close> as the specification
  describes (arrays of shape \<open>(N_source, k)\<close>, finite distances that are not negative,
  indices of target rows), \<open>wknn_affinity\<close> returns a matrix of shape
  \<open>(N_source, N_target)\<close> in which every entry is finite and not negative and every
  row sums to 1. The arithmetic is exact, so the sum is 1 and not only close to it.
  The bound \<open>k \<le> N_target\<close> of the claim is not needed.
\<close>

theorem wknn_affinity_row_stochastic:
  assumes "nearest_neighbours features1 features2 k = Inr (distances, neighbourIndices)"
    and "knn_result (nrows features1) (nrows features2) (nat k) distances neighbourIndices"
    and "1 \<le> k"
  shows "\<exists>A. wknn_affinity nearest_neighbours features1 features2 k = Inr A
           \<and> nrows A = nrows features1 \<and> ncols A = nrows features2 \<and> wf_array2 A
           \<and> list_all stochastic_row (rows A)"
proof -
  have k: "1 \<le> nat k" using assms(3) by simp
  from wknn_rows_ok [OF assms(2) k, of "[0..<nrows features1]"] obtain A where A:
    "wknn_rows distances neighbourIndices (nrows features2) [0..<nrows features1] = Inr A"
    "length A = nrows features1"
    "\<forall>r\<in>set A. \<exists>xs. r = map Fin xs \<and> length xs = nrows features2 \<and> (\<forall>x\<in>set xs. 0 \<le> x) \<and> 0 < sum_list xs"
    by auto
  have res: "wknn_affinity nearest_neighbours features1 features2 k
               = Inr (Array2 (nrows features2) (normalise_rows A))"
    using assms(1) A(1) by (simp add: wknn_affinity_def)
  have rows_ok: "stochastic_row (map (\<lambda>x. np_div x (np_sum r)) r) \<and> length r = nrows features2"
    if "r \<in> set A" for r
  proof -
    from A(3) that obtain xs where xs: "r = map Fin xs" "length xs = nrows features2"
      "\<forall>x\<in>set xs. 0 \<le> x" "0 < sum_list xs" by blast
    show ?thesis using normalised_row_stochastic [OF xs(3,4)] xs(1,2) by simp
  qed
  have "list_all stochastic_row (normalise_rows A)"
    using rows_ok by (simp add: normalise_rows_def list_all_iff)
  moreover have "wf_array2 (Array2 (nrows features2) (normalise_rows A))"
    using rows_ok by (simp add: wf_array2_def normalise_rows_def list_all_iff)
  ultimately show ?thesis using res A(2) by (simp add: nrows_def normalise_rows_def)
qed

text \<open>
  The theorem at \<open>k = 1\<close>, two source elements at 0 and the target elements 0 and 1.
\<close>

theorem wknn_affinity_row_stochastic_witness:
  "\<exists>A. wknn_affinity one_neighbour (Array2 1 [[Fin 0], [Fin 0]]) (Array2 1 [[Fin 0], [Fin 1]]) 1 = Inr A
       \<and> nrows A = 2 \<and> ncols A = 2 \<and> wf_array2 A \<and> list_all stochastic_row (rows A)"
  using wknn_affinity_row_stochastic [of one_neighbour "Array2 1 [[Fin 0], [Fin 0]]"
      "Array2 1 [[Fin 0], [Fin 1]]" 1 "Array2 1 [[Fin 0], [Fin 0]]" "Array2 1 [[0], [0]]"]
  by (simp add: one_neighbour_def knn_result_def nrows_def wf_array2_def numeral_2_eq_2)

text \<open>
  Claim C8. The divisor of \<open>1.0 / (distance * distance)\<close> is never zero, whatever the
  distance. A distance 0 is raised to 0.001 and gives the affinity \<open>1 / 0.001\<^sup>2\<close>,
  a finite number; every finite distance gives a finite affinity between the floor
  0.0001 and that maximum. For a source element with one neighbour, the target
  element 0 at distance 0, the row of the matrix before the normalisation holds this
  maximum at index 0.
\<close>

theorem affinity_element_floor:
  "np_mul (clamp_distance d) (clamp_distance d) \<noteq> Fin 0
   \<and> affinity_element (Fin 0) = Fin (1 / (1 / 1000 * (1 / 1000)))
   \<and> (\<exists>w. affinity_element (Fin x) = Fin w \<and> 1 / 10000 \<le> w \<and> w \<le> 1 / (1 / 1000 * (1 / 1000)))
   \<and> wknn_rows (Array2 1 [[Fin 0]]) (Array2 1 [[0]]) 2 [0]
       = Inr [[Fin (1 / (1 / 1000 * (1 / 1000))), Fin 0]]"
proof (intro conjI)
  show "np_mul (clamp_distance d) (clamp_distance d) \<noteq> Fin 0"
    using clamp_distance_cases [of d] by (auto simp: signed_inf_def)
  show zero: "affinity_element (Fin 0) = Fin (1 / (1 / 1000 * (1 / 1000)))"
    by (simp add: affinity_element_def clamp_distance_def)
  show "\<exists>w. affinity_element (Fin x) = Fin w \<and> 1 / 10000 \<le> w \<and> w \<le> 1 / (1 / 1000 * (1 / 1000))"
    using affinity_element_Fin [of x] by simp
  show "wknn_rows (Array2 1 [[Fin 0]]) (Array2 1 [[0]]) 2 [0]
          = Inr [[Fin (1 / (1 / 1000 * (1 / 1000))), Fin 0]]"
    by (simp add: nrows_def py_index_def numeral_2_eq_2 zero)
qed

lemma scatter_row_errors: "scatter_row distances i js arow = Inl e \<Longrightarrow> e = IndexError"
  by (induction distances i js arow rule: scatter_row.induct) (auto split: if_splits option.splits)

lemma wknn_rows_errors: "wknn_rows distances neighbourIndices n is = Inl e \<Longrightarrow> e = IndexError"
  by (induction "is") (auto split: if_splits sum.splits dest: scatter_row_errors)

lemma wknn_rows_no_neighbours:
  assumes "\<forall>i\<in>set is. i < nrows neighbourIndices \<and> rows neighbourIndices ! i = []"
  shows "wknn_rows distances neighbourIndices n is = Inr (replicate (length is) (replicate n (Fin 0)))"
  using assms by (induction "is") simp_all

lemma np_sum_zeros: "np_sum (replicate n (Fin 0)) = Fin 0"
  using np_sum_Fin [of "replicate n (0::real)"] by (simp add: sum_list_replicate)

text \<open>
  Claim C6, as amended. \<open>wknn_affinity\<close> does not check \<open>k\<close>. It fails only with the
  exception the oracle raises, or with \<open>IndexError\<close> when an array the oracle returned
  is indexed outside its range; and when the oracle answers with arrays of shape
  \<open>(N_source, 0)\<close>, it returns the matrix of shape \<open>(N_source, N_target)\<close> whose
  entries are all \<open>nan\<close> (each is \<open>0/0\<close>).
\<close>

theorem wknn_affinity_no_k_check:
  "(wknn_affinity nearest_neighbours features1 features2 k = Inl e
      \<longrightarrow> nearest_neighbours features1 features2 k = Inl e \<or> e = IndexError)
   \<and> (nearest_neighbours features1 features2 k = Inr (distances, neighbourIndices)
        \<and> knn_result (nrows features1) (nrows features2) 0 distances neighbourIndices
      \<longrightarrow> wknn_affinity nearest_neighbours features1 features2 k
            = Inr (Array2 (nrows features2) (replicate (nrows features1) (replicate (nrows features2) NaN))))"
proof (intro conjI impI)
  assume "wknn_affinity nearest_neighbours features1 features2 k = Inl e"
  then show "nearest_neighbours features1 features2 k = Inl e \<or> e = IndexError"
    by (auto simp: wknn_affinity_def Let_def split: sum.splits prod.splits dest: wknn_rows_errors)
next
  assume a: "nearest_neighbours features1 features2 k = Inr (distances, neighbourIndices)
      \<and> knn_result (nrows features1) (nrows features2) 0 distances neighbourIndices"
  then have "\<forall>i\<in>set [0..<nrows features1]. i < nrows neighbourIndices \<and> rows neighbourIndices ! i = []"
    by (auto simp: knn_result_def wf_array2_def list_all_length nrows_def)
  from wknn_rows_no_neighbours [OF this]
  have "wknn_rows distances neighbourIndices (nrows features2) [0..<nrows features1]
          = Inr (replicate (nrows features1) (replicate (nrows features2) (Fin 0)))"
    by simp
  then show "wknn_affinity nearest_neighbours features1 features2 k
            = Inr (Array2 (nrows features2) (replicate (nrows features1) (replicate (nrows features2) NaN)))"
    using a by (simp add: wknn_affinity_def Let_def normalise_rows_def np_sum_zeros)
qed

text \<open>
  Claim C6 as stated fails: with \<open>k = 0\<close>, one source and one target element, the
  call does not fail with \<open>InvalidArgument\<close>; it returns a matrix.
\<close>

theorem wknn_affinity_k_zero_counterexample:
  "wknn_affinity no_neighbours (Array2 1 [[Fin 0]]) (Array2 1 [[Fin 0]]) 0 = Inr (Array2 1 [[NaN]])"
  by (simp add: wknn_affinity_def no_neighbours_def nrows_def normalise_rows_def np_sum_def)

text \<open>The amended theorem at \<open>k = 0\<close>, and at an oracle that raises.\<close>

theorem wknn_affinity_no_k_check_witness:
  "wknn_affinity no_neighbours (Array2 1 [[Fin 0]]) (Array2 1 [[Fin 0]]) 0 = Inr (Array2 1 [[NaN]])
   \<and> wknn_affinity (\<lambda>f1 f2 k. Inl LinAlgError) (Array2 1 [[Fin 0]]) (Array2 1 [[Fin 0]]) 0 = Inl LinAlgError"
  using wknn_affinity_no_k_check [of no_neighbours "Array2 1 [[Fin 0]]" "Array2 1 [[Fin 0]]" 0 e
      "Array2 0 [[]]" "Array2 0 [[]]"]
    wknn_affinity_no_k_check [of "\<lambda>f1 f2 k. Inl LinAlgError" "Array2 1 [[Fin 0]]" "Array2 1 [[Fin 0]]" 0 LinAlgError]
  by (simp add: no_neighbours_def knn_result_def nrows_def wf_array2_def wknn_affinity_def)

section \<open>Properties of the Correspondence Resolver\<close>

lemma np_less_irrefl: "\<not> np_less x x"
  by (cases x) simp_all

text \<open>
  Claim C9. The comparison with the rounding limit is strict: a flag equal to the
  limit (so 0.9 at the default limit) becomes 0.0, every flag greater than the limit
  becomes 1.0, and the flags \<open>affinity_to_correspondences\<close> returns are the blended
  flags \<open>affinity.dot(flags2)\<close>, each rounded in this way.
\<close>

theorem flag_binarization_strict:
  "round_flag flagRoundingLimit flagRoundingLimit = Fin 0
   \<and> round_flag flagRoundingLimit_default (Fin (9 / 10)) = Fin 0
   \<and> (np_greater flag flagRoundingLimit \<longrightarrow> round_flag flagRoundingLimit flag = Fin 1)
   \<and> (affinity_to_correspondences features2 flags2 affinity flagRoundingLimit
         = Inr (correspondingFeatures, correspondingFlags)
       \<longrightarrow> correspondingFlags
             = map (\<lambda>r. round_flag flagRoundingLimit (np_dot r flags2)) (rows affinity))"
proof (intro conjI impI)
  show "round_flag flagRoundingLimit flagRoundingLimit = Fin 0"
    by (simp add: round_flag_def np_greater_def np_less_irrefl)
  show "round_flag flagRoundingLimit_default (Fin (9 / 10)) = Fin 0"
    by (simp add: round_flag_def np_greater_def flagRoundingLimit_default_def)
  show "round_flag flagRoundingLimit flag = Fin 1" if "np_greater flag flagRoundingLimit"
    using that by (simp add: round_flag_def)
  show "correspondingFlags = map (\<lambda>r. round_flag flagRoundingLimit (np_dot r flags2)) (rows affinity)"
    if "affinity_to_correspondences features2 flags2 affinity flagRoundingLimit
         = Inr (correspondingFeatures, correspondingFlags)"
    using that
    by (auto simp: affinity_to_correspondences_def dot_matrix_vector_def
        split: sum.splits if_splits)
qed

text \<open>
  The theorem at two source elements: the first blends to exactly 0.9 and is
  rounded to 0.0, the second blends to 1.0 and is rounded to 1.0.
\<close>

theorem flag_binarization_strict_witness:
  "np_greater (Fin 1) (Fin (9 / 10)) \<and> round_flag (Fin (9 / 10)) (Fin 1) = Fin 1
   \<and> affinity_to_correspondences (Array2 1 [[Fin 5], [Fin 7]]) [Fin 1, Fin 0]
        (Array2 2 [[Fin (9 / 10), Fin (1 / 10)], [Fin 1, Fin 0]]) (Fin (9 / 10))
      = Inr (Array2 1 [[Fin (52 / 10)], [Fin 5]], [Fin 0, Fin 1])"
proof -
  have g: "np_greater (Fin 1) (Fin (9 / 10))" by (simp add: np_greater_def)
  have run: "affinity_to_correspondences (Array2 1 [[Fin 5], [Fin 7]]) [Fin 1, Fin 0]
        (Array2 2 [[Fin (9 / 10), Fin (1 / 10)], [Fin 1, Fin 0]]) (Fin (9 / 10))
      = Inr (Array2 1 [[Fin (52 / 10)], [Fin 5]], map (round_flag (Fin (9 / 10))) [Fin (9 / 10), Fin 1])"
    by (simp add: affinity_to_correspondences_def dot_matrices_def dot_matrix_vector_def
        nrows_def column_def np_dot_def np_sum_def)
  from flag_binarization_strict [of "Fin (9 / 10)" "Fin 1" "Array2 1 [[Fin 5], [Fin 7]]" "[Fin 1, Fin 0]"
      "Array2 2 [[Fin (9 / 10), Fin (1 / 10)], [Fin 1, Fin 0]]"
      "Array2 1 [[Fin (52 / 10)], [Fin 5]]" "map (round_flag (Fin (9 / 10))) [Fin (9 / 10), Fin 1]"]
  have "round_flag (Fin (9 / 10)) (Fin (9 / 10)) = Fin 0" "round_flag (Fin (9 / 10)) (Fin 1) = Fin 1"
    using g by blast+
  then show ?thesis using g run by simp
qed

section \<open>Properties of the Affinity Fuser\<close>

lemma nonneg_row_reals:
  "list_all (\<lambda>x. \<exists>a. x = Fin a \<and> 0 \<le> a) r \<Longrightarrow> \<exists>xs. r = map Fin xs \<and> (\<forall>x\<in>set xs. 0 \<le> x)"
proof (induction r)
  case Nil
  then show ?case by simp
next
  case (Cons x r)
  then obtain a xs where "x = Fin a" "0 \<le> a" "r = map Fin xs" "\<forall>x\<in>set xs. 0 \<le> x" by auto
  then have "x # r = map Fin (a # xs) \<and> (\<forall>x\<in>set (a # xs). 0 \<le> x)" by simp
  then show ?case by (rule exI)
qed

lemma broadcast2_same_shape:
  assumes "wf_array2 A" "wf_array2 B" "nrows A = nrows B" "ncols A = ncols B"
  shows "broadcast2 f A B = Inr (Array2 (ncols A) (map2 (map2 f) (rows A) (rows B)))"
proof -
  let ?r = "nrows A" and ?c = "ncols A"
  have lenA: "\<And>i. i < ?r \<Longrightarrow> length (rows A ! i) = ?c"
    using assms(1) by (simp add: wf_array2_def list_all_length nrows_def)
  have lenB: "\<And>i. i < ?r \<Longrightarrow> length (rows B ! i) = ?c"
    using assms(2,3,4) by (simp add: wf_array2_def list_all_length nrows_def)
  have "map (\<lambda>i. map (\<lambda>j.
                 f (rows A ! (if ?r = 1 then 0 else i) ! (if ?c = 1 then 0 else j))
                   (rows B ! (if ?r = 1 then 0 else i) ! (if ?c = 1 then 0 else j)))
               [0..<?c]) [0..<?r]
        = map2 (map2 f) (rows A) (rows B)"
  proof (rule nth_equalityI)
    show "length (map (\<lambda>i. map (\<lambda>j.
                 f (rows A ! (if ?r = 1 then 0 else i) ! (if ?c = 1 then 0 else j))
                   (rows B ! (if ?r = 1 then 0 else i) ! (if ?c = 1 then 0 else j)))
               [0..<?c]) [0..<?r]) = length (map2 (map2 f) (rows A) (rows B))"
      using assms(3) by (simp add: nrows_def)
  next
    fix i assume "i < length (map (\<lambda>i. map (\<lambda>j.
                 f (rows A ! (if ?r = 1 then 0 else i) ! (if ?c = 1 then 0 else j))
                   (rows B ! (if ?r = 1 then 0 else i) ! (if ?c = 1 then 0 else j)))
               [0..<?c]) [0..<?r])"
    then have i: "i < ?r" by simp
    then have i0: "(if ?r = 1 then 0 else i) = i" by simp
    have iA: "i < length (rows A)" and iB: "i < length (rows B)"
      using i assms(3) by (simp_all add: nrows_def)
    have "map (\<lambda>j. f (rows A ! i ! (if ?c = 1 then 0 else j)) (rows B ! i ! (if ?c = 1 then 0 else j))) [0..<?c]
            = map2 f (rows A ! i) (rows B ! i)"
    proof (rule nth_equalityI)
      show "length (map (\<lambda>j. f (rows A ! i ! (if ?c = 1 then 0 else j)) (rows B ! i ! (if ?c = 1 then 0 else j))) [0..<?c])
              = length (map2 f (rows A ! i) (rows B ! i))"
        using lenA [OF i] lenB [OF i] by simp
    next
      fix j assume "j < length (map (\<lambda>j. f (rows A ! i ! (if ?c = 1 then 0 else j)) (rows B ! i ! (if ?c = 1 then 0 else j))) [0..<?c])"
      then have j: "j < ?c" by simp
      then have j0: "(if ?c = 1 then 0 else j) = j" by simp
      show "map (\<lambda>j. f (rows A ! i ! (if ?c = 1 then 0 else j)) (rows B ! i ! (if ?c = 1 then 0 else j))) [0..<?c] ! j
              = map2 f (rows A ! i) (rows B ! i) ! j"
        using j j0 lenA [OF i] lenB [OF i] by auto
    qed
    then show "map (\<lambda>i. map (\<lambda>j.
                 f (rows A ! (if ?r = 1 then 0 else i) ! (if ?c = 1 then 0 else j))
                   (rows B ! (if ?r = 1 then 0 else i) ! (if ?c = 1 then 0 else j)))
               [0..<?c]) [0..<?r] ! i = map2 (map2 f) (rows A) (rows B) ! i"
      using i i0 iA iB by auto
  qed
  then show ?thesis
    using assms(3,4) by (simp add: broadcast2_def Let_def)
qed

lemma sum_list_map2_add:
  fixes xs ys :: "real list"
  shows "length xs = length ys \<Longrightarrow> sum_list (map2 (+) xs ys) = sum_list xs + sum_list ys"
  by (induction xs ys rule: list_induct2) simp_all

lemma map2_Fin_add:
  "length xs = length ys \<Longrightarrow> map2 np_add (map Fin xs) (map Fin ys) = map Fin (map2 (+) xs ys)"
  by (induction xs ys rule: list_induct2) simp_all


lemma fused_rows_positive:
  assumes "affinity_matrix nA nB affinity12" "affinity_matrix nB nA affinity21" "i < nA"
  shows "\<exists>zs. map2 np_add (rows affinity12 ! i) (column affinity21 i) = map Fin zs
            \<and> length zs = nB \<and> (\<forall>z\<in>set zs. 0 \<le> z) \<and> 0 < sum_list zs"
proof -
  have i12: "i < length (rows affinity12)"
    using assms(1,3) by (simp add: affinity_matrix_def nrows_def)
  then have row: "stochastic_row (rows affinity12 ! i)" and len: "length (rows affinity12 ! i) = nB"
    using assms(1) by (simp_all add: affinity_matrix_def wf_array2_def list_all_length)
  from row obtain xs where xs: "rows affinity12 ! i = map Fin xs" "\<forall>x\<in>set xs. 0 \<le> x"
    using nonneg_row_reals unfolding stochastic_row_def by blast
  from row xs(1) have one: "sum_list xs = 1"
    by (simp add: stochastic_row_def np_sum_Fin)
  have "list_all (\<lambda>x. \<exists>a. x = Fin a \<and> 0 \<le> a) (column affinity21 i)"
    unfolding column_def list_all_iff
  proof
    fix v assume "v \<in> set (map (\<lambda>r. r ! i) (rows affinity21))"
    then obtain r where r: "r \<in> set (rows affinity21)" "v = r ! i" by auto
    with assms(2) have "stochastic_row r" "length r = nA"
      by (simp_all add: affinity_matrix_def wf_array2_def list_all_iff)
    then show "\<exists>a. v = Fin a \<and> 0 \<le> a"
      using r(2) assms(3) by (simp add: stochastic_row_def list_all_length)
  qed
  then obtain cs where cs: "column affinity21 i = map Fin cs" "\<forall>c\<in>set cs. 0 \<le> c"
    using nonneg_row_reals by blast
  have "length (column affinity21 i) = nB"
    using assms(2) by (simp add: column_def affinity_matrix_def nrows_def)
  with cs(1) len xs(1) have eqlen: "length xs = length cs" and lxs: "length xs = nB"
    by (metis length_map)+
  let ?zs = "map2 (+) xs cs"
  have "map2 np_add (rows affinity12 ! i) (column affinity21 i) = map Fin ?zs"
    using xs(1) cs(1) map2_Fin_add [OF eqlen] by simp
  moreover have "length ?zs = nB" using eqlen lxs by simp
  moreover have "\<forall>z\<in>set ?zs. 0 \<le> z"
    using xs(2) cs(2) by (auto simp: set_zip)
  moreover have "0 < sum_list ?zs"
    using sum_list_map2_add [OF eqlen] one sum_list_nonneg [of cs] cs(2) by simp
  ultimately show ?thesis by blast
qed

text \<open>
  Lines 94 to 96 compute what the claim describes: for affinity matrices of shapes
  \<open>(N_A, N_B)\<close> and \<open>(N_B, N_A)\<close>, the local name \<open>affinityFused\<close> ends bound to
  \<open>affinity12 + affinity21.transpose()\<close> with every row divided by its sum, an
  affinity matrix of shape \<open>(N_A, N_B)\<close> again.
\<close>

lemma fused_matrix_value:
  assumes "affinity_matrix nA nB affinity12" "affinity_matrix nB nA affinity21"
  shows "\<exists>fused. fused_matrix affinity12 affinity21 = Inr fused
            \<and> rows fused = normalise_rows
                  (map2 (map2 np_add) (rows affinity12) (rows (transpose_array affinity21)))
            \<and> affinity_matrix nA nB fused"
proof -
  let ?T = "transpose_array affinity21"
  let ?S = "map2 (map2 np_add) (rows affinity12) (rows ?T)"
  have wf12: "wf_array2 affinity12" and r12: "nrows affinity12 = nA" and c12: "ncols affinity12 = nB"
    using assms(1) by (simp_all add: affinity_matrix_def)
  have r21: "nrows affinity21 = nB" and c21: "ncols affinity21 = nA"
    using assms(2) by (simp_all add: affinity_matrix_def)
  have wfT: "wf_array2 ?T"
    by (simp add: wf_array2_def transpose_array_def column_def list_all_iff nrows_def)
  have rT: "nrows ?T = nA" and cT: "ncols ?T = nB"
    using r21 c21 by (simp_all add: transpose_array_def nrows_def)
  have sum: "broadcast2 np_add affinity12 ?T = Inr (Array2 nB ?S)"
    using broadcast2_same_shape [OF wf12 wfT] r12 c12 rT cT by simp
  then have fused: "fused_matrix affinity12 affinity21 = Inr (Array2 nB (normalise_rows ?S))"
    by (simp add: fused_matrix_def)
  have lenS: "length ?S = nA"
    using r12 rT by (simp add: nrows_def)
  have rowS: "\<exists>zs. r = map Fin zs \<and> length zs = nB \<and> (\<forall>z\<in>set zs. 0 \<le> z) \<and> 0 < sum_list zs"
    if "r \<in> set ?S" for r
  proof -
    from that obtain i where i: "i < length ?S" "r = ?S ! i" by (metis in_set_conv_nth)
    from i(1) have iA: "i < nA" unfolding lenS .
    have "rows ?T ! i = column affinity21 i"
      using iA c21 by (simp add: transpose_array_def)
    then have "r = map2 np_add (rows affinity12 ! i) (column affinity21 i)"
      using i by simp
    then show ?thesis using fused_rows_positive [OF assms iA] by simp
  qed
  have norm: "stochastic_row (map (\<lambda>x. np_div x (np_sum r)) r) \<and> length r = nB"
    if "r \<in> set ?S" for r
  proof -
    from rowS [OF that] obtain zs where zs: "r = map Fin zs" "length zs = nB"
      "\<forall>z\<in>set zs. 0 \<le> z" "0 < sum_list zs" by blast
    show ?thesis using normalised_row_stochastic [OF zs(3,4)] zs(1,2) by simp
  qed
  have "affinity_matrix nA nB (Array2 nB (normalise_rows ?S))"
    unfolding affinity_matrix_def
    using norm lenS by (simp add: nrows_def normalise_rows_def wf_array2_def list_all_iff)
  then show ?thesis using fused by simp
qed

text \<open>
  Claim C3 fails on the code. For affinity matrices of shapes \<open>(N_A, N_B)\<close> and
  \<open>(N_B, N_A)\<close>, \<open>fuse_affinities\<close> computes the fused matrix of the claim, but the
  matrix reaches the caller in no way: the call returns \<open>True\<close>, and the array given
  as \<open>affinityFused\<close>, which the docstring names as the output, is left exactly as it
  was, like \<open>affinity12\<close> and \<open>affinity21\<close>.
\<close>

theorem fuse_affinities_discards_fused_matrix:
  assumes "affinity_matrix nA nB affinity12" "affinity_matrix nB nA affinity21"
  shows "fuse_affinities affinity12 affinity21 affinityFused
           = Inr (PyBool True, affinity12, affinity21, affinityFused)
       \<and> (\<exists>fused. fused_matrix affinity12 affinity21 = Inr fused
            \<and> rows fused = normalise_rows
                  (map2 (map2 np_add) (rows affinity12) (rows (transpose_array affinity21)))
            \<and> affinity_matrix nA nB fused)"
proof -
  from fused_matrix_value [OF assms] obtain fused where
    fused: "fused_matrix affinity12 affinity21 = Inr fused"
      "rows fused = normalise_rows
         (map2 (map2 np_add) (rows affinity12) (rows (transpose_array affinity21)))"
      "affinity_matrix nA nB fused"
    by blast
  have "fuse_affinities affinity12 affinity21 affinityFused
          = Inr (PyBool True, affinity12, affinity21, affinityFused)"
    using fused(1) by (simp add: fuse_affinities_def)
  then show ?thesis using fused by blast
qed

text \<open>
  The theorem on two affinity matrices of shape \<open>(1, 1)\<close> and an output array that
  holds 0: the fused matrix is \<open>[[1]]\<close>, the call returns \<open>True\<close> and the output
  array still holds 0.
\<close>

theorem fuse_affinities_discards_fused_matrix_witness:
  "affinity_matrix 1 1 (Array2 1 [[Fin 1]])
   \<and> fuse_affinities (Array2 1 [[Fin 1]]) (Array2 1 [[Fin 1]]) (Array2 1 [[Fin 0]])
       = Inr (PyBool True, Array2 1 [[Fin 1]], Array2 1 [[Fin 1]], Array2 1 [[Fin 0]])
   \<and> fused_matrix (Array2 1 [[Fin 1]]) (Array2 1 [[Fin 1]]) = Inr (Array2 1 [[Fin 1]])
   \<and> PyBool True \<noteq> PyArray (Array2 1 [[Fin 1]])
   \<and> Array2 1 [[Fin 0]] \<noteq> Array2 1 [[Fin (1::real)]]"
proof -
  have a: "affinity_matrix 1 1 (Array2 1 [[Fin 1]])"
    by (simp add: affinity_matrix_def nrows_def wf_array2_def stochastic_row_def np_sum_def)
  have f: "fused_matrix (Array2 1 [[Fin 1]]) (Array2 1 [[Fin 1]]) = Inr (Array2 1 [[Fin 1]])"
    by (simp add: fused_matrix_def broadcast2_def transpose_array_def
        nrows_def column_def normalise_rows_def np_sum_def)
  from fuse_affinities_discards_fused_matrix [OF a a, of "Array2 1 [[Fin 0]]"] a f
  show ?thesis by simp
qed

section \<open>Properties of the Inlier Classifier\<close>


lemma distance_pass_result:
  assumes "distance_pass F CF s l is p = Inr p'"
  shows "length p' = length p
       \<and> (\<forall>i\<in>set is. i < length p \<and> (\<exists>d. residual F CF i = Inr d
              \<and> p' ! i = np_div (gaussian_density s d) (np_add (gaussian_density s d) l)))
       \<and> (\<forall>i. i \<notin> set is \<longrightarrow> p' ! i = p ! i)"
  using assms
proof (induction "is" arbitrary: p)
  case Nil
  then show ?case by simp
next
  case (Cons i "is")
  from Cons.prems obtain d where d: "residual F CF i = Inr d" and i: "i < length p"
    and rest: "distance_pass F CF s l is
                 (p[i := np_div (gaussian_density s d) (np_add (gaussian_density s d) l)]) = Inr p'"
    by (auto simp: Let_def split: sum.splits if_splits)
  let ?q = "p[i := np_div (gaussian_density s d) (np_add (gaussian_density s d) l)]"
  from Cons.IH [OF rest] have IH: "length p' = length ?q"
    "\<forall>j\<in>set is. j < length ?q \<and> (\<exists>d. residual F CF j = Inr d
              \<and> p' ! j = np_div (gaussian_density s d) (np_add (gaussian_density s d) l))"
    "\<forall>j. j \<notin> set is \<longrightarrow> p' ! j = ?q ! j"
    by blast+
  have here: "p' ! i = np_div (gaussian_density s d) (np_add (gaussian_density s d) l)"
  proof (cases "i \<in> set is")
    case True
    with IH(2) d show ?thesis by auto
  next
    case False
    with IH(3) i show ?thesis by simp
  qed
  show ?case using IH d i here by auto
qed

lemma normal_pass_result:
  assumes "normal_pass F CF is p = Inr p'" "distinct is"
  shows "length p' = length p
       \<and> (\<forall>i\<in>set is. i < length p \<and> (\<exists>t. normal_dot F CF i = Inr t
              \<and> p' ! i = np_mul (p ! i) (rescale_dot t)))
       \<and> (\<forall>i. i \<notin> set is \<longrightarrow> p' ! i = p ! i)"
  using assms
proof (induction "is" arbitrary: p)
  case Nil
  then show ?case by simp
next
  case (Cons i "is")
  from Cons.prems(1) obtain t where t: "normal_dot F CF i = Inr t" and i: "i < length p"
    and rest: "normal_pass F CF is (p[i := np_mul (p ! i) (rescale_dot t)]) = Inr p'"
    by (auto simp: Let_def split: sum.splits if_splits)
  let ?q = "p[i := np_mul (p ! i) (rescale_dot t)]"
  from Cons.prems(2) have dis: "distinct is" and notin: "i \<notin> set is" by simp_all
  from Cons.IH [OF rest dis] have IH: "length p' = length ?q"
    "\<forall>j\<in>set is. j < length ?q \<and> (\<exists>t. normal_dot F CF j = Inr t
              \<and> p' ! j = np_mul (?q ! j) (rescale_dot t))"
    "\<forall>j. j \<notin> set is \<longrightarrow> p' ! j = ?q ! j"
    by blast+
  have here: "p' ! i = np_mul (p ! i) (rescale_dot t)"
    using IH(3) notin i by simp
  have others: "\<forall>j\<in>set is. ?q ! j = p ! j"
    using notin by (metis nth_list_update_neq)
  show ?case using IH t i here others by auto
qed

lemma inlier_detection_entry:
  assumes "inlier_detection F CF flags p kappaa = Inr out" "i < nrows F"
  shows "\<exists>sigmaa d t. sigma_of_input F CF flags p = Inr sigmaa \<and> residual F CF i = Inr d
           \<and> normal_dot F CF i = Inr t \<and> out ! i = final_probability sigmaa kappaa d t"
proof -
  from assms(1) obtain flagged sigmaa weighted where
    fl: "flag_pass (enumerate 0 flags) p = Inr flagged"
    and sg: "estimate_sigma F CF flagged = Inr sigmaa"
    and dp: "distance_pass F CF sigmaa (cutoff_density sigmaa kappaa) [0..<nrows F] flagged = Inr weighted"
    and np: "normal_pass F CF [0..<nrows F] weighted = Inr out"
    by (auto simp: inlier_detection_def Let_def split: sum.splits)
  have mem: "i \<in> set [0..<nrows F]" using assms(2) by simp
  from distance_pass_result [OF dp] mem obtain d where d: "residual F CF i = Inr d"
    "weighted ! i = np_div (gaussian_density sigmaa d)
                      (np_add (gaussian_density sigmaa d) (cutoff_density sigmaa kappaa))"
    by blast
  from normal_pass_result [OF np] mem obtain t where t: "normal_dot F CF i = Inr t"
    "out ! i = np_mul (weighted ! i) (rescale_dot t)"
    by (metis distinct_upt)
  have "sigma_of_input F CF flags p = Inr sigmaa"
    using fl sg by (simp add: sigma_of_input_def)
  then show ?thesis
    using d t by (auto simp: final_probability_def rescale_dot_def)
qed



lemma sample_residuals:
  "residual sample_features sample_correspondences 0 = Inr (Fin 0)"
  "residual sample_features sample_correspondences (Suc 0) = Inr (Fin 1)"
  by (simp_all add: residual_def sample_features_def sample_correspondences_def nrows_def
      broadcast1_def np_sub_def np_norm_def np_sum_def)

lemma sample_normals:
  "normal_dot sample_features sample_correspondences 0 = Inr (Fin 1)"
  "normal_dot sample_features sample_correspondences (Suc 0) = Inr (Fin 1)"
  by (simp_all add: normal_dot_def sample_features_def sample_correspondences_def nrows_def
      dot_vectors_def np_dot_def np_sum_def)

lemma sample_nrows: "nrows sample_features = 2"
  by (simp add: sample_features_def nrows_def)

lemma upt_2: "[0..<2] = [0, Suc 0]"
  by (simp add: numeral_2_eq_2)

lemma sample_sigma:
  "estimate_sigma sample_features sample_correspondences [Fin 0, Fin 1] = Inr (Fin 1)"
  by (simp add: estimate_sigma_def sample_nrows upt_2 sample_residuals)

lemma sample_run_after_flags:
  "(case estimate_sigma sample_features sample_correspondences [Fin 0, Fin 1] of
      Inl e \<Rightarrow> Inl e
    | Inr sigmaa \<Rightarrow>
        (case distance_pass sample_features sample_correspondences sigmaa
                (cutoff_density sigmaa (Fin 3)) [0..<nrows sample_features] [Fin 0, Fin 1] of
           Inl e \<Rightarrow> Inl e
         | Inr weighted \<Rightarrow>
             normal_pass sample_features sample_correspondences [0..<nrows sample_features] weighted))
   = Inr [final_probability (Fin 1) (Fin 3) (Fin 0) (Fin 1),
          final_probability (Fin 1) (Fin 3) (Fin 1) (Fin 1)]"
  by (simp add: sample_sigma sample_nrows upt_2 sample_residuals sample_normals
      final_probability_def rescale_dot_def Let_def)

lemma sample_run_flagged:
  "inlier_detection sample_features sample_correspondences [Fin 0, Fin 1] [Fin 1, Fin 1] (Fin 3)
     = Inr [final_probability (Fin 1) (Fin 3) (Fin 0) (Fin 1),
            final_probability (Fin 1) (Fin 3) (Fin 1) (Fin 1)]"
  unfolding inlier_detection_def Let_def using sample_run_after_flags by simp



lemma final_probability_Fin:
  assumes "0 < s"
  shows "\<exists>r. final_probability (Fin s) (Fin k) (Fin d) (Fin t) = Fin (r * (t / 2 + 1 / 2)) \<and> 0 < r"
proof -
  define c where "c = sqrt (2 * (314159 / 100000)) * s"
  have c: "0 < c" using assms by (simp add: c_def)
  define g where "g = 1 / c * exp (- (1 / 2) * (d / s * (d / s)))"
  define l where "l = 1 / c * exp (- (1 / 2) * k * k)"
  have g: "0 < g" and l: "0 < l" using c by (simp_all add: g_def l_def)
  have s0: "s \<noteq> 0" using assms by simp
  have norm: "gaussian_norm (Fin s) = Fin (1 / c)"
    using s0 by (simp add: gaussian_norm_def c_def)
  have gd: "gaussian_density (Fin s) (Fin d) = Fin g"
    unfolding gaussian_density_def norm using s0 by (simp add: g_def)
  have cd: "cutoff_density (Fin s) (Fin k) = Fin l"
    unfolding cutoff_density_def norm by (simp add: l_def)
  have gl: "g + l \<noteq> 0" using g l by simp
  have "final_probability (Fin s) (Fin k) (Fin d) (Fin t) = Fin (g / (g + l) * (t / 2 + 1 / 2))"
    unfolding final_probability_def gd cd using gl by simp
  moreover have "0 < g / (g + l)" using g l by simp
  ultimately show ?thesis by blast
qed

text \<open>
  Claim C1 fails on the code. On the two sample elements with the flags \<open>[0, 1]\<close>,
  the flag pass sets the probability of element 0 to 0, the distance pass overwrites
  it, and the call leaves a probability that is not 0 for the element whose flag is 0.
\<close>

theorem flag_gate_overwritten:
  "inlier_detection sample_features sample_correspondences [Fin 0, Fin 1] [Fin 1, Fin 1] (Fin 3)
     = Inr [final_probability (Fin 1) (Fin 3) (Fin 0) (Fin 1),
            final_probability (Fin 1) (Fin 3) (Fin 1) (Fin 1)]
   \<and> final_probability (Fin 1) (Fin 3) (Fin 0) (Fin 1) \<noteq> Fin 0"
proof -
  obtain r where "final_probability (Fin 1) (Fin 3) (Fin 0) (Fin 1) = Fin (r * (1 / 2 + 1 / 2))" "0 < r"
    using final_probability_Fin [of 1 3 0 1] by auto
  then have "final_probability (Fin 1) (Fin 3) (Fin 0) (Fin 1) \<noteq> Fin 0" by simp
  then show ?thesis using sample_run_flagged by simp
qed


lemma np_add_zero: "np_add x (Fin 0) = x"
  by (cases x) simp_all

lemma np_mul_zero_twice: "np_mul (np_mul (Fin 0) d) d = Fin 0 \<or> np_mul (np_mul (Fin 0) d) d = NaN"
  by (cases d) (simp_all add: signed_inf_def)

lemma np_mul_NaN: "np_mul NaN x = NaN"
  by (cases x) simp_all

lemma np_div_NaN: "np_div NaN x = NaN"
  by (cases x) simp_all

lemma np_div_by_NaN: "np_div x NaN = NaN"
  by (cases x) simp_all

lemma sigma_sums_zero:
  assumes "sigma_sums F CF p is (num, den) = Inr (num', den')"
    and "\<forall>i\<in>set is. p ! i = Fin 0" and "num = Fin 0 \<or> num = NaN"
  shows "den' = den \<and> (num' = Fin 0 \<or> num' = NaN)"
  using assms
proof (induction "is" arbitrary: num den)
  case Nil
  then show ?case by simp
next
  case (Cons i "is")
  from Cons.prems(1) obtain d where d: "residual F CF i = Inr d"
    and rest: "sigma_sums F CF p is (np_add num (np_mul (np_mul (p ! i) d) d), np_add den (p ! i))
                 = Inr (num', den')"
    by (auto split: sum.splits if_splits)
  from Cons.prems(2) have pi: "p ! i = Fin 0" and zeros: "\<forall>j\<in>set is. p ! j = Fin 0" by simp_all
  have step: "np_add num (np_mul (np_mul (Fin 0) d) d) = Fin 0
              \<or> np_add num (np_mul (np_mul (Fin 0) d) d) = NaN"
    using Cons.prems(3) np_mul_zero_twice [of d] by auto
  from Cons.IH [OF rest [unfolded pi np_add_zero] zeros step] show ?case .
qed

lemma estimate_sigma_zero:
  assumes "estimate_sigma F CF p = Inr sigmaa" "\<forall>i<nrows F. p ! i = Fin 0"
  shows "sigmaa = NaN \<and> 0 < nrows F"
proof -
  from assms(1) obtain num den where sums: "sigma_sums F CF p [0..<nrows F] (Fin 0, Fin 0) = Inr (num, den)"
    and n: "nrows F \<noteq> 0" and s: "sigmaa = np_sqrt (np_div num den)"
    by (auto simp: estimate_sigma_def split: sum.splits if_splits)
  have "\<forall>i\<in>set [0..<nrows F]. p ! i = Fin 0" using assms(2) by simp
  from sigma_sums_zero [OF sums this] have "den = Fin 0" "num = Fin 0 \<or> num = NaN" by simp_all
  then have "np_div num den = NaN" by auto
  then show ?thesis using s n by simp
qed

lemma final_probability_NaN: "final_probability NaN kappaa d t = NaN"
proof -
  have "gaussian_norm NaN = NaN"
    by (simp add: gaussian_norm_def np_div_by_NaN)
  then have "gaussian_density NaN d = NaN"
    by (simp add: gaussian_density_def np_mul_NaN)
  then show ?thesis
    by (simp add: final_probability_def np_div_NaN np_mul_NaN)
qed

lemma flag_pass_errors: "flag_pass fl p = Inl e \<Longrightarrow> e = IndexError"
  by (induction fl p rule: flag_pass.induct) (auto split: if_splits)

lemma residual_errors: "residual F CF i = Inl e \<Longrightarrow> e = IndexError \<or> e = ValueError"
  by (auto simp: residual_def broadcast1_def split: if_splits sum.splits)

lemma sigma_sums_errors:
  "sigma_sums F CF p is acc = Inl e \<Longrightarrow> e = IndexError \<or> e = ValueError"
  by (induction F CF p "is" acc rule: sigma_sums.induct)
     (auto split: if_splits sum.splits dest: residual_errors)

lemma estimate_sigma_errors:
  "estimate_sigma F CF p = Inl e \<Longrightarrow> e = IndexError \<or> e = ValueError \<or> e = ZeroDivisionError"
  by (auto simp: estimate_sigma_def split: if_splits sum.splits prod.splits dest: sigma_sums_errors)

lemma distance_pass_errors:
  "distance_pass F CF s l is p = Inl e \<Longrightarrow> e = IndexError \<or> e = ValueError"
  by (induction F CF s l "is" p rule: distance_pass.induct)
     (auto simp: Let_def split: if_splits sum.splits dest: residual_errors)

lemma normal_dot_errors: "normal_dot F CF i = Inl e \<Longrightarrow> e = IndexError \<or> e = ValueError"
  by (auto simp: normal_dot_def dot_vectors_def split: if_splits)

lemma normal_pass_errors:
  "normal_pass F CF is p = Inl e \<Longrightarrow> e = IndexError \<or> e = ValueError"
  by (induction F CF "is" p rule: normal_pass.induct)
     (auto simp: Let_def split: if_splits sum.splits dest: normal_dot_errors)

lemma inlier_detection_errors:
  assumes "inlier_detection F CF flags p kappaa = Inl e"
  shows "e = IndexError \<or> e = ValueError \<or> e = ZeroDivisionError"
proof (cases "flag_pass (enumerate 0 flags) p")
  case (Inl e1)
  with assms show ?thesis by (auto simp: inlier_detection_def dest: flag_pass_errors)
next
  case (Inr flagged)
  note fl = this
  show ?thesis
  proof (cases "estimate_sigma F CF flagged")
    case (Inl e2)
    with assms fl show ?thesis by (auto simp: inlier_detection_def dest: estimate_sigma_errors)
  next
    case (Inr sigmaa)
    note sg = this
    show ?thesis
    proof (cases "distance_pass F CF sigmaa (cutoff_density sigmaa kappaa) [0..<nrows F] flagged")
      case (Inl e3)
      with assms fl sg show ?thesis by (auto simp: inlier_detection_def dest: distance_pass_errors)
    next
      case (Inr weighted)
      with assms fl sg show ?thesis by (auto simp: inlier_detection_def dest: normal_pass_errors)
    qed
  qed
qed

text \<open>
  Claim C4, as amended. \<open>inlier_detection\<close> has no guard for probabilities that are
  all 0: it never fails with \<open>DegenerateState\<close>, and when every probability is 0
  after the flag pass and the call returns, there is at least one element and the
  probability of every element is \<open>nan\<close>.
\<close>

theorem inlier_detection_zero_probabilities:
  "inlier_detection features correspondingFeatures correspondingFlags inlierProbability kappaa
     \<noteq> Inl DegenerateState
   \<and> (inlier_detection features correspondingFeatures correspondingFlags inlierProbability kappaa = Inr out
      \<and> flag_pass (enumerate 0 correspondingFlags) inlierProbability = Inr flagged
      \<and> (\<forall>i<nrows features. flagged ! i = Fin 0)
    \<longrightarrow> 0 < nrows features \<and> (\<forall>i<nrows features. out ! i = NaN))"
proof (intro conjI impI)
  show "inlier_detection features correspondingFeatures correspondingFlags inlierProbability kappaa
          \<noteq> Inl DegenerateState"
    using inlier_detection_errors by fastforce
next
  assume a: "inlier_detection features correspondingFeatures correspondingFlags inlierProbability kappaa = Inr out
      \<and> flag_pass (enumerate 0 correspondingFlags) inlierProbability = Inr flagged
      \<and> (\<forall>i<nrows features. flagged ! i = Fin 0)"
  then obtain sigmaa where sg: "estimate_sigma features correspondingFeatures flagged = Inr sigmaa"
    by (auto simp: inlier_detection_def Let_def split: sum.splits)
  from estimate_sigma_zero [OF sg] a have nan: "sigmaa = NaN" and n: "0 < nrows features" by simp_all
  have sig: "sigma_of_input features correspondingFeatures correspondingFlags inlierProbability = Inr NaN"
    using a sg nan by (simp add: sigma_of_input_def)
  show "0 < nrows features" by (rule n)
  show "\<forall>i<nrows features. out ! i = NaN"
  proof (intro allI impI)
    fix i assume "i < nrows features"
    with a inlier_detection_entry [of features correspondingFeatures correspondingFlags inlierProbability kappaa out i]
    obtain s d t where "sigma_of_input features correspondingFeatures correspondingFlags inlierProbability = Inr s"
      "out ! i = final_probability s kappaa d t" by blast
    with sig show "out ! i = NaN" by (simp add: final_probability_NaN)
  qed
qed

lemma sample_run_zero:
  "inlier_detection sample_features sample_correspondences [Fin 1, Fin 1] [Fin 0, Fin 0] (Fin 3)
     = Inr [NaN, NaN]"
  by (simp add: inlier_detection_def Let_def estimate_sigma_def sample_nrows upt_2 sample_residuals
      sample_normals cutoff_density_def gaussian_density_def gaussian_norm_def rescale_dot_def)

text \<open>
  Claim C4 as stated fails: on the two sample elements with the probabilities
  \<open>[0, 0]\<close> the call returns, and both probabilities are \<open>nan\<close>.
\<close>

theorem inlier_detection_zero_counterexample:
  "inlier_detection sample_features sample_correspondences [Fin 1, Fin 1] [Fin 0, Fin 0] (Fin 3)
     = Inr [NaN, NaN]"
  by (rule sample_run_zero)

text \<open>The amended theorem on the two sample elements with the probabilities \<open>[0, 0]\<close>.\<close>

theorem inlier_detection_zero_probabilities_witness:
  "inlier_detection sample_features sample_correspondences [Fin 1, Fin 1] [Fin 0, Fin 0] (Fin 3)
     = Inr [NaN, NaN]
   \<and> flag_pass (enumerate 0 [Fin 1, Fin 1]) [Fin 0, Fin 0] = Inr [Fin 0, Fin 0]
   \<and> 0 < nrows sample_features
   \<and> [NaN, NaN] ! 0 = NaN \<and> [NaN, NaN] ! 1 = NaN"
  using inlier_detection_zero_probabilities [of sample_features sample_correspondences "[Fin 1, Fin 1]"
      "[Fin 0, Fin 0]" "Fin 3" "[NaN, NaN]" "[Fin 0, Fin 0]"] sample_run_zero
  by (simp add: sample_nrows)

section \<open>Properties of the Rigid Transform Estimator\<close>

lemma and_then_Inr [simp]: "and_then (Inr v) f = f v"
  by (simp add: and_then_def)

lemma and_then_Inl [simp]: "and_then (Inl e) f = Inl e"
  by (simp add: and_then_def)

lemma and_then_eq_Inr: "and_then m f = Inr r \<longleftrightarrow> (\<exists>v. m = Inr v \<and> f v = Inr r)"
  by (cases m) simp_all

lemma upt_4: "[0..<4] = [0, Suc 0, 2, 3]"
  by (simp add: upt_rec)

lemma upt_3: "[0..<3] = [0, Suc 0, 2]"
  by (simp add: upt_rec)

lemma identity_3: "identity 3 = Array2 3 [[Fin 1, Fin 0, Fin 0], [Fin 0, Fin 1, Fin 0], [Fin 0, Fin 0, Fin 1]]"
  by (simp add: identity_def upt_3)

lemma identity_4: "identity 4 = Array2 4 [[Fin 1, Fin 0, Fin 0, Fin 0], [Fin 0, Fin 1, Fin 0, Fin 0],
     [Fin 0, Fin 0, Fin 1, Fin 0], [Fin 0, Fin 0, Fin 0, Fin 1]]"
  by (simp add: identity_def upt_4)

lemma zeros_33: "zeros 3 3 = Array2 3 [[Fin 0, Fin 0, Fin 0], [Fin 0, Fin 0, Fin 0], [Fin 0, Fin 0, Fin 0]]"
  by (simp add: zeros_def numeral_3_eq_3)

lemma zeros_31: "zeros 3 (Suc 0) = Array2 1 [[Fin 0], [Fin 0], [Fin 0]]"
  by (simp add: zeros_def numeral_3_eq_3)

lemma scaled_weights: "weight_at scaled_scope 0 = Inr (Fin 1)" "weight_at scaled_scope (Suc 0) = Inr (Fin 1)"
  by (simp_all add: weight_at_def lookup_def scaled_scope_def)

lemma scaled_columns:
  "column_at (floatingPositions scaled_scope) 0 = Inr [Fin 1, Fin 0, Fin 0]"
  "column_at (floatingPositions scaled_scope) (Suc 0) = Inr [Fin (- 1), Fin 0, Fin 0]"
  "column_at (correspondingPositions scaled_scope) 0 = Inr [Fin 3, Fin 0, Fin 0]"
  "column_at (correspondingPositions scaled_scope) (Suc 0) = Inr [Fin (- 1), Fin 0, Fin 0]"
  by (simp_all add: column_at_def lookup_def scaled_scope_def column_def)

lemma scaled_centroids:
  "for_loop (centroid_step scaled_scope) [0, Suc 0] (replicate 3 (Fin 0), replicate 3 (Fin 0), Fin 0)
     = Inr ([Fin 0, Fin 0, Fin 0], [Fin 2, Fin 0, Fin 0], Fin 2)"
  by (simp add: numeral_3_eq_3 scaled_weights scaled_columns broadcast1_def)

lemma scaled_cross_sum:
  "for_loop (cross_variance_step scaled_scope) [0, Suc 0] (zeros 3 3)
     = Inr (Array2 3 [[Fin 4, Fin 0, Fin 0], [Fin 0, Fin 0, Fin 0], [Fin 0, Fin 0, Fin 0]])"
  by (simp add: zeros_33 cross_variance_step_def scaled_weights scaled_columns outer_def
      scale_array_def broadcast2_def nrows_def upt_3)

lemma scaled_cross_variance:
  "broadcast2 np_sub
     (divide_array (Array2 3 [[Fin 4, Fin 0, Fin 0], [Fin 0, Fin 0, Fin 0], [Fin 0, Fin 0, Fin 0]]) (Fin 2))
     (outer [Fin 0, Fin 0, Fin 0] [Fin 1, Fin 0, Fin 0])
   = Inr (Array2 3 [[Fin 2, Fin 0, Fin 0], [Fin 0, Fin 0, Fin 0], [Fin 0, Fin 0, Fin 0]])"
  by (simp add: divide_array_def outer_def broadcast2_def nrows_def upt_3 np_sub_def)

lemma scaled_Q:
  "quaternion_matrix (Array2 3 [[Fin 2, Fin 0, Fin 0], [Fin 0, Fin 0, Fin 0], [Fin 0, Fin 0, Fin 0]])
   = Inr (Array2 4 [[Fin 2, Fin 0, Fin 0, Fin 0], [Fin 0, Fin 2, Fin 0, Fin 0],
                    [Fin 0, Fin 0, Fin (- 2), Fin 0], [Fin 0, Fin 0, Fin 0, Fin (- 2)]])"
  by (simp add: quaternion_matrix_def transpose_array_def column_def broadcast2_def nrows_def upt_3
      np_sub_def entry_def trace_def np_sum_def identity_3 zeros_33 scale_array_def)

lemma scaled_eig:
  "eig_of_diagonal (Array2 4 [[Fin 2, Fin 0, Fin 0, Fin 0], [Fin 0, Fin 2, Fin 0, Fin 0],
                    [Fin 0, Fin 0, Fin (- 2), Fin 0], [Fin 0, Fin 0, Fin 0, Fin (- 2)]])
   = Inr ([Fin 2, Fin 2, Fin (- 2), Fin (- 2)], identity 4)"
  by (simp add: eig_of_diagonal_def upt_4)

lemma scaled_quaternion:
  "column_at (Some (identity 4))
     (fst (max_eigenvalue (enumerate 0 [Fin 2, Fin 2, Fin (- 2), Fin (- 2)]) (0, Fin 0)))
   = Inr [Fin 1, Fin 0, Fin 0, Fin 0]"
  by (simp add: np_greater_def column_at_def lookup_def identity_4 column_def)

lemma scaled_rotation:
  "rotation_of_quaternion [Fin 1, Fin 0, Fin 0, Fin 0] = Inr (identity 3)"
  by (simp add: rotation_of_quaternion_def np_square_def np_sub_def identity_3 Let_def)

lemma scaled_scale:
  "scale_factor scaled_scope [0, Suc 0] (identity 3) [Fin 0, Fin 0, Fin 0] [Fin 1, Fin 0, Fin 0]
   = Inr (Fin 2)"
proof -
  have adj: "lookup (adjustScale scaled_scope) = Inr True"
    by (simp add: lookup_def scaled_scope_def)
  have loop: "for_loop (scale_step scaled_scope (identity 3) [Fin 0, Fin 0, Fin 0] [Fin 1, Fin 0, Fin 0])
                [0, Suc 0] (Fin 0, Fin 0) = Inr (Fin 4, Fin 2)"
    by (simp add: scaled_weights scaled_columns broadcast1_def np_sub_def identity_3
        dot_matrix_vector_def dot_vectors_def np_dot_def np_sum_def)
  show ?thesis by (simp add: scale_factor_def adj loop del: for_loop.simps)
qed

lemma scaled_transformation:
  "transformation_matrix (Fin 2) (identity 3) [Fin 0, Fin 0, Fin 0] [Fin 1, Fin 0, Fin 0]
   = Inr (Array2 4 [[Fin 2, Fin 0, Fin 0, Fin 2], [Fin 0, Fin 2, Fin 0, Fin 0],
                    [Fin 0, Fin 0, Fin 2, Fin 0], [Fin 0, Fin 0, Fin 0, Fin 1]])"
  by (simp add: transformation_matrix_def identity_3 identity_4 zeros_31 zeros_33
      dot_matrix_vector_def dot_matrices_def np_dot_def np_sum_def broadcast1_def broadcast2_def
      np_sub_def nrows_def scale_array_def column_def upt_3 upt_4 Let_def)

lemma scaled_apply:
  "for_loop (apply_step (Array2 4 [[Fin 2, Fin 0, Fin 0, Fin 2], [Fin 0, Fin 2, Fin 0, Fin 0],
                    [Fin 0, Fin 0, Fin 2, Fin 0], [Fin 0, Fin 0, Fin 0, Fin 1]])) [0, Suc 0]
     (Array2 2 [[Fin 1, Fin (- 1)], [Fin 0, Fin 0], [Fin 0, Fin 0]], replicate 4 (Fin 1))
   = Inr (Array2 2 [[Fin 4, Fin 0], [Fin 0, Fin 0], [Fin 0, Fin 0]], [Fin (- 1), Fin 0, Fin 0, Fin 1])"
  by (simp add: column_at_def lookup_def column_def broadcast1_def dot_matrix_vector_def
      np_dot_def np_sum_def set_column_def Let_def numeral_eq_Suc)

lemma scaled_run:
  "rigid_transformation eig_of_diagonal scaled_scope features correspondingFeatures weights
   = Inr (PyNone, scaled_scope\<lparr>floatingPositions :=
            Some (Array2 2 [[Fin 4, Fin 0], [Fin 0, Fin 0], [Fin 0, Fin 0]])\<rparr>)"
proof -
  have n: "lookup (numFloatingVertices scaled_scope) = Inr 2"
    by (simp add: lookup_def scaled_scope_def)
  have idx: "[0..<nat 2] = [0, Suc 0]" by (simp add: upt_rec)
  have pos: "lookup (floatingPositions scaled_scope)
               = Inr (Array2 2 [[Fin 1, Fin (- 1)], [Fin 0, Fin 0], [Fin 0, Fin 0]])"
    by (simp add: lookup_def scaled_scope_def)
  have cross: "broadcast2 np_sub
     (divide_array (Array2 3 [[Fin 4, Fin 0, Fin 0], [Fin 0, Fin 0, Fin 0], [Fin 0, Fin 0, Fin 0]]) (Fin 2))
     (outer (map (\<lambda>x. np_div x (Fin 2)) [Fin 0, Fin 0, Fin 0]) (map (\<lambda>x. np_div x (Fin 2)) [Fin 2, Fin 0, Fin 0]))
   = Inr (Array2 3 [[Fin 2, Fin 0, Fin 0], [Fin 0, Fin 0, Fin 0], [Fin 0, Fin 0, Fin 0]])"
    using scaled_cross_variance by simp
  show ?thesis
    unfolding rigid_transformation_def n and_then_Inr Let_def idx scaled_centroids prod.case
      scaled_cross_sum cross scaled_Q scaled_eig scaled_quaternion scaled_rotation
    by (simp add: scaled_scale scaled_transformation pos scaled_apply del: for_loop.simps)
qed

lemma lookup_eq_Inr: "lookup b = Inr v \<longleftrightarrow> b = Some v"
  by (cases b) (simp_all add: lookup_def)

lemma lookup_None: "lookup None = Inl NameError"
  by (simp add: lookup_def)

lemma centroid_step_names:
  assumes "centroid_step g i s = Inr s'"
  shows "floatingWeights g \<noteq> None \<and> floatingPositions g \<noteq> None \<and> correspondingPositions g \<noteq> None"
proof -
  obtain a b c where s: "s = (a, b, c)" by (cases s)
  from assms [unfolded s] show ?thesis
    by (auto simp: and_then_eq_Inr weight_at_def column_at_def lookup_eq_Inr)
qed

lemma rigid_transformation_names:
  assumes "rigid_transformation eig g features correspondingFeatures weights = Inr result"
  shows "(\<exists>n. numFloatingVertices g = Some n
              \<and> (0 < n \<longrightarrow> floatingWeights g \<noteq> None \<and> correspondingPositions g \<noteq> None))
         \<and> floatingPositions g \<noteq> None \<and> adjustScale g \<noteq> None"
proof -
  from assms obtain n where n: "numFloatingVertices g = Some n"
    by (auto simp: rigid_transformation_def and_then_eq_Inr lookup_eq_Inr)
  from assms n obtain totals where loop: "for_loop (centroid_step g) [0..<nat n]
      (replicate 3 (Fin 0), replicate 3 (Fin 0), Fin 0) = Inr totals"
    by (auto simp: rigid_transformation_def and_then_eq_Inr lookup_eq_Inr Let_def)
  have names: "floatingWeights g \<noteq> None \<and> correspondingPositions g \<noteq> None" if "0 < n"
  proof -
    from that have "[0..<nat n] = 0 # [Suc 0..<nat n]" by (simp add: upt_conv_Cons)
    with loop obtain s' where "centroid_step g 0 (replicate 3 (Fin 0), replicate 3 (Fin 0), Fin 0) = Inr s'"
      by (auto split: sum.splits)
    from centroid_step_names [OF this] show ?thesis by simp
  qed
  from assms n have "floatingPositions g \<noteq> None"
    by (auto simp: rigid_transformation_def and_then_eq_Inr lookup_eq_Inr Let_def)
  moreover from assms n have "adjustScale g \<noteq> None"
    by (auto simp: rigid_transformation_def and_then_eq_Inr lookup_eq_Inr Let_def scale_factor_def)
  ultimately show ?thesis using n names by blast
qed

lemma rigid_transformation_value:
  assumes "rigid_transformation eig g features correspondingFeatures weights = Inr (v, g')"
  shows "v = PyNone"
  using assms by (auto simp: rigid_transformation_def and_then_eq_Inr Let_def)

text \<open>
  Claim C7. The result of \<open>rigid_transformation\<close> does not depend on its parameters
  \<open>features\<close>, \<open>correspondingFeatures\<close> and \<open>weights\<close>. In the scope of the module as
  it is written every call raises \<open>NameError\<close>, whatever the arguments. A call
  completes only in a scope that binds \<open>numFloatingVertices\<close>, \<open>floatingPositions\<close>
  and \<open>adjustScale\<close>, and also \<open>floatingWeights\<close> and \<open>correspondingPositions\<close> when
  \<open>numFloatingVertices\<close> is positive: these are the names the body evaluates.
\<close>

theorem rigid_transformation_ignores_parameters:
  "rigid_transformation eig g features correspondingFeatures weights
     = rigid_transformation eig g features' correspondingFeatures' weights'
   \<and> rigid_transformation eig core_module_scope features correspondingFeatures weights = Inl NameError
   \<and> (rigid_transformation eig g features correspondingFeatures weights = Inr result
      \<longrightarrow> (\<exists>n. numFloatingVertices g = Some n
                \<and> (0 < n \<longrightarrow> floatingWeights g \<noteq> None \<and> correspondingPositions g \<noteq> None))
          \<and> floatingPositions g \<noteq> None \<and> adjustScale g \<noteq> None)"
proof (intro conjI impI)
  show "rigid_transformation eig g features correspondingFeatures weights
     = rigid_transformation eig g features' correspondingFeatures' weights'"
    by (simp add: rigid_transformation_def)
  show "rigid_transformation eig core_module_scope features correspondingFeatures weights = Inl NameError"
    by (simp add: rigid_transformation_def core_module_scope_def lookup_None)
  assume "rigid_transformation eig g features correspondingFeatures weights = Inr result"
  from rigid_transformation_names [OF this]
  show "\<exists>n. numFloatingVertices g = Some n
                \<and> (0 < n \<longrightarrow> floatingWeights g \<noteq> None \<and> correspondingPositions g \<noteq> None)"
    and "floatingPositions g \<noteq> None" and "adjustScale g \<noteq> None"
    by blast+
qed

text \<open>
  The theorem in \<open>scaled_scope\<close>: two calls with different arguments give the same
  result, the call completes, and the scope binds the five names.
\<close>

theorem rigid_transformation_ignores_parameters_witness:
  "rigid_transformation eig_of_diagonal scaled_scope (Array2 0 []) (Array2 0 []) []
     = rigid_transformation eig_of_diagonal scaled_scope (Array2 1 [[Fin 7]]) (Array2 1 [[Fin 8]]) [Fin 9]
   \<and> rigid_transformation eig_of_diagonal scaled_scope (Array2 0 []) (Array2 0 []) []
     = Inr (PyNone, scaled_scope\<lparr>floatingPositions :=
              Some (Array2 2 [[Fin 4, Fin 0], [Fin 0, Fin 0], [Fin 0, Fin 0]])\<rparr>)
   \<and> numFloatingVertices scaled_scope = Some 2
   \<and> floatingWeights scaled_scope \<noteq> None \<and> correspondingPositions scaled_scope \<noteq> None
   \<and> floatingPositions scaled_scope \<noteq> None \<and> adjustScale scaled_scope \<noteq> None"
  using rigid_transformation_ignores_parameters [of eig_of_diagonal scaled_scope "Array2 0 []" "Array2 0 []" "[]"
      "Array2 1 [[Fin 7]]" "Array2 1 [[Fin 8]]" "[Fin 9]"
      "(PyNone, scaled_scope\<lparr>floatingPositions :=
              Some (Array2 2 [[Fin 4, Fin 0], [Fin 0, Fin 0], [Fin 0, Fin 0]])\<rparr>)"]
    scaled_run [of "Array2 0 []" "Array2 0 []" "[]"]
  by (simp add: scaled_scope_def)

text \<open>
  Claim C2 fails on the code. No call of \<open>rigid_transformation\<close> returns a matrix:
  the body has no \<open>return\<close> statement. In \<open>scaled_scope\<close> the call transforms the
  positions in place and returns \<open>None\<close>. The matrix it applies there has the scale 2
  in its rotation block and \<open>2 * 1\<close> in its last column, where the translation is 1
  (the product is \<open>rotationMatrix.dot(translationMatrix)\<close>): the points end at 4 and
  0 on the first axis, not at their correspondences 3 and -1.
\<close>

theorem rigid_transformation_returns_None:
  "rigid_transformation eig g features correspondingFeatures weights \<noteq> Inr (PyArray M, g')
   \<and> rigid_transformation eig_of_diagonal scaled_scope features correspondingFeatures weights
       = Inr (PyNone, scaled_scope\<lparr>floatingPositions :=
                Some (Array2 2 [[Fin 4, Fin 0], [Fin 0, Fin 0], [Fin 0, Fin 0]])\<rparr>)
   \<and> transformation_matrix (Fin 2) (identity 3) [Fin 0, Fin 0, Fin 0] [Fin 1, Fin 0, Fin 0]
       = Inr (Array2 4 [[Fin 2, Fin 0, Fin 0, Fin 2], [Fin 0, Fin 2, Fin 0, Fin 0],
                        [Fin 0, Fin 0, Fin 2, Fin 0], [Fin 0, Fin 0, Fin 0, Fin 1]])"
proof (intro conjI)
  show "rigid_transformation eig g features correspondingFeatures weights \<noteq> Inr (PyArray M, g')"
    using rigid_transformation_value [of eig g features correspondingFeatures weights "PyArray M" g']
    by auto
  show "rigid_transformation eig_of_diagonal scaled_scope features correspondingFeatures weights
       = Inr (PyNone, scaled_scope\<lparr>floatingPositions :=
                Some (Array2 2 [[Fin 4, Fin 0], [Fin 0, Fin 0], [Fin 0, Fin 0]])\<rparr>)"
    by (rule scaled_run)
  show "transformation_matrix (Fin 2) (identity 3) [Fin 0, Fin 0, Fin 0] [Fin 1, Fin 0, Fin 0]
       = Inr (Array2 4 [[Fin 2, Fin 0, Fin 0, Fin 2], [Fin 0, Fin 2, Fin 0, Fin 0],
                        [Fin 0, Fin 0, Fin 2, Fin 0], [Fin 0, Fin 0, Fin 0, Fin 1]])"
    by (rule scaled_transformation)
qed

end
